theory Spec2Isabelle
  imports Complex_Main
begin

section \<open>Python and numpy preliminaries\<close>

text \<open>
  Arrays are one-dimensional numpy arrays of floats, modelled as lists of reals: floating
  point arithmetic is idealised as exact real arithmetic. Every exception the source can
  raise is a value of \<open>py_error\<close>, and a fallible function returns \<open>py_error + 'a\<close>.
\<close>

datatype py_error =
    AssertionError
  | IndexError
  | KeyError
  | TypeError
  | IOError
  | NotImplementedError
  | ValueError string

text \<open>Elementwise binary operation with numpy's broadcasting rule for shapes (m,) and (n,).\<close>

definition np_broadcast2 ::
  "(real \<Rightarrow> real \<Rightarrow> real) \<Rightarrow> real list \<Rightarrow> real list \<Rightarrow> py_error + real list" where
  "np_broadcast2 f a b =
     (if length a = length b then Inr (map2 f a b)
      else if length a = 1 then Inr (map (f (hd a)) b)
      else if length b = 1 then Inr (map (\<lambda>x. f x (hd b)) a)
      else Inl (ValueError ''operands could not be broadcast together''))"

text \<open>\<open>np.linalg.norm\<close> of a vector.\<close>

definition np_norm :: "real list \<Rightarrow> real" where
  "np_norm v = sqrt (sum_list (map (\<lambda>x. x * x) v))"

text \<open>\<open>np.clip\<close> of a scalar.\<close>

definition np_clip :: "real \<Rightarrow> real \<Rightarrow> real \<Rightarrow> real" where
  "np_clip x lo hi = min (max x lo) hi"

text \<open>\<open>np.clip\<close> of an array against array bounds: the minimum with the upper bound of
  the maximum with the lower bound, both broadcast.\<close>

definition np_clip_array :: "real list \<Rightarrow> real list \<Rightarrow> real list \<Rightarrow> py_error + real list" where
  "np_clip_array a lo hi =
     (case np_broadcast2 max a lo of
        Inl e \<Rightarrow> Inl e
      | Inr m \<Rightarrow> np_broadcast2 min m hi)"

text \<open>The \<open>%\<close> of numpy on floats: the remainder has the sign of the divisor.\<close>

definition np_mod :: "real \<Rightarrow> real \<Rightarrow> real" where
  "np_mod x m = x - m * of_int \<lfloor>x / m\<rfloor>"

text \<open>\<open>np.arctan2 y x\<close>, the angle of the point (x, y) in (-pi, pi].\<close>

definition np_arctan2 :: "real \<Rightarrow> real \<Rightarrow> real" where
  "np_arctan2 y x =
     (if 0 < x then arctan (y / x)
      else if x < 0 then (if 0 \<le> y then arctan (y / x) + pi else arctan (y / x) - pi)
      else if 0 < y then pi / 2
      else if y < 0 then - (pi / 2)
      else 0)"

text \<open>\<open>np.interp x [x0, x1] [f0, f1]\<close> for a scalar and two sample points with x0 < x1.\<close>

definition np_interp :: "real \<Rightarrow> real \<times> real \<Rightarrow> real \<times> real \<Rightarrow> real" where
  "np_interp x xp fp =
     (if x \<le> fst xp then fst fp
      else if snd xp \<le> x then snd fp
      else fst fp + (x - fst xp) * (snd fp - fst fp) / (snd xp - fst xp))"

text \<open>\<open>np.allclose a b\<close> for scalars, with the default tolerances.\<close>

definition np_allclose :: "real \<Rightarrow> real \<Rightarrow> bool" where
  "np_allclose a b = (\<bar>a - b\<bar> \<le> 1 / 10 ^ 8 + (1 / 10 ^ 5) * \<bar>b\<bar>)"

section \<open>Quaternion helpers of gym.envs.robotics.rotations\<close>

text \<open>
  The module \<open>rotations\<close> is imported by every source file but is not among them. Its
  functions are modelled from the specification, which fixes the scalar-first convention,
  the product, the conjugate and the rotation of a vector.
\<close>

text \<open>Modelled from the spec: \<open>rotations.quat_identity\<close>, the identity quaternion.\<close>

definition quat_identity :: "real list" where
  "quat_identity = [1, 0, 0, 0]"

text \<open>Modelled from the spec: \<open>rotations.quat_mul\<close>, the Hamilton product of two scalar-first
  quaternions; operands that are not 4-vectors fail its shape assertion.\<close>

definition quat_mul :: "real list \<Rightarrow> real list \<Rightarrow> py_error + real list" where
  "quat_mul q0 q1 =
     (if length q0 \<noteq> 4 \<or> length q1 \<noteq> 4 then Inl AssertionError
      else
        let w0 = q0 ! 0; x0 = q0 ! 1; y0 = q0 ! 2; z0 = q0 ! 3;
            w1 = q1 ! 0; x1 = q1 ! 1; y1 = q1 ! 2; z1 = q1 ! 3
        in Inr [w0 * w1 - x0 * x1 - y0 * y1 - z0 * z1,
                w0 * x1 + x0 * w1 + y0 * z1 - z0 * y1,
                w0 * y1 + y0 * w1 + z0 * x1 - x0 * z1,
                w0 * z1 + z0 * w1 + x0 * y1 - y0 * x1])"

text \<open>Modelled from the spec: \<open>rotations.quat_conjugate\<close>, which negates the vector part.\<close>

definition quat_conjugate :: "real list \<Rightarrow> real list" where
  "quat_conjugate q = (case q of [] \<Rightarrow> [] | w # v \<Rightarrow> w # map uminus v)"

text \<open>Modelled from the spec: \<open>rotations.quat_rot_vec\<close>, the rotation of the 3-vector v0 by q,
  the vector part of q * (0, v0) * conjugate q.\<close>

definition quat_rot_vec :: "real list \<Rightarrow> real list \<Rightarrow> py_error + real list" where
  "quat_rot_vec q v0 =
     (if length v0 < 3 then Inl IndexError
      else
        case quat_mul [0, v0 ! 0, v0 ! 1, v0 ! 2] (quat_conjugate q) of
          Inl e \<Rightarrow> Inl e
        | Inr t \<Rightarrow> (case quat_mul q t of Inl e \<Rightarrow> Inl e | Inr q_v \<Rightarrow> Inr (drop 1 q_v)))"

text \<open>Modelled from the spec: \<open>rotations.normalize_angles\<close>, which puts an angle into the
  canonical range from -pi to pi.\<close>

definition normalize_angles :: "real \<Rightarrow> real" where
  "normalize_angles angle = np_mod (angle + pi) (2 * pi) - pi"

section \<open>gym/utils/transformations.py\<close>

definition quat_angle_diff :: "real list \<Rightarrow> real list \<Rightarrow> py_error + real" where
  "quat_angle_diff quat_a quat_b =
     (case quat_mul quat_a (quat_conjugate quat_b) of
        Inl e \<Rightarrow> Inl e
      | Inr quat_diff \<Rightarrow>
          let angle_diff = 2 * arccos (np_clip (quat_diff ! 0) (- 1) 1)
          in Inr \<bar>normalize_angles angle_diff\<bar>)"

definition get_tf :: "real list \<Rightarrow> real list \<Rightarrow> py_error + real list" where
  "get_tf world_to_b world_to_a =
     (case np_broadcast2 (-) (take 3 world_to_b) (take 3 world_to_a) of
        Inl e \<Rightarrow> Inl e
      | Inr pos_tf0 \<Rightarrow>
     (case quat_mul quat_identity (quat_conjugate (drop 3 world_to_a)) of
        Inl e \<Rightarrow> Inl e
      | Inr q \<Rightarrow>
     (case quat_rot_vec q pos_tf0 of
        Inl e \<Rightarrow> Inl e
      | Inr pos_tf \<Rightarrow>
     (case quat_mul (drop 3 world_to_b) (quat_conjugate (drop 3 world_to_a)) of
        Inl e \<Rightarrow> Inl e
      | Inr quat_tf \<Rightarrow> Inr (pos_tf @ quat_tf)))))"

definition apply_tf :: "real list \<Rightarrow> real list \<Rightarrow> py_error + real list" where
  "apply_tf a_to_b0 world_to_a0 =
     (let pos_only = (length world_to_a0 = 3);
          world_to_a = (if length world_to_a0 = 3 then world_to_a0 @ [1, 0, 0, 0] else world_to_a0);
          a_to_b = (if length a_to_b0 = 3 then a_to_b0 @ [1, 0, 0, 0] else a_to_b0)
      in
        case quat_rot_vec (drop 3 world_to_a) (take 3 a_to_b) of
          Inl e \<Rightarrow> Inl e
        | Inr rotated \<Rightarrow>
       (case np_broadcast2 (+) (take 3 world_to_a) rotated of
          Inl e \<Rightarrow> Inl e
        | Inr new_pos \<Rightarrow>
       (case quat_mul (drop 3 world_to_a) (drop 3 a_to_b) of
          Inl e \<Rightarrow> Inl e
        | Inr new_quat \<Rightarrow> if pos_only then Inr new_pos else Inr (new_pos @ new_quat))))"


section \<open>gym/envs/robotics/hand/move.py\<close>

subsection \<open>Module constants and the environment object\<close>

datatype mass_spec = MassScalar real | MassSeq "real list"

record object_props =
  mesh_parts :: "nat option"
  mass :: "mass_spec option"

text \<open>The table \<open>OBJECTS\<close>; the geometry strings of an entry only feed the scene template
  and are left out.\<close>

definition OBJECTS :: "(string \<times> object_props) list" where
  "OBJECTS =
     [(''original'', \<lparr>mesh_parts = None, mass = None\<rparr>),
      (''small_box'', \<lparr>mesh_parts = None, mass = None\<rparr>),
      (''box'', \<lparr>mesh_parts = None, mass = None\<rparr>),
      (''sphere'', \<lparr>mesh_parts = None, mass = None\<rparr>),
      (''small_sphere'', \<lparr>mesh_parts = None, mass = None\<rparr>),
      (''teapot'', \<lparr>mesh_parts = Some 6,
                    mass = Some (MassSeq [1 / 100, 1 / 100, 1 / 100, 1 / 2, 1 / 100, 1 / 100])\<rparr>)]"

text \<open>The value of the argument \<open>grasp_state\<close>: \<open>None\<close>, a boolean, or a simulator snapshot.\<close>

datatype 's grasp_arg = GraspNone | GraspFlag bool | GraspObj 's

text \<open>The keyword arguments of \<open>MovingHandEnv.__init__\<close> that decide its control flow
  (\<open>model_path\<close>, \<open>initial_qpos\<close>, \<open>n_substeps\<close> and \<open>cage_opacity\<close> are handed on unread).\<close>

record 's hand_kwargs =
  kw_reward_type :: string
  kw_relative_control :: bool
  kw_has_object :: bool
  kw_randomize_initial_arm_pos :: bool
  kw_randomize_initial_object_pos :: bool
  kw_ignore_rotation_ctrl :: bool
  kw_distance_threshold :: real
  kw_rotation_threshold :: real
  kw_ignore_target_rotation :: bool
  kw_success_on_grasp_only :: bool
  kw_grasp_state :: "'s grasp_arg"
  kw_grasp_state_reset_p :: real
  kw_target_in_the_air_p :: real
  kw_object_id :: string
  kw_object_cage :: bool
  kw_weld_fingers :: bool

text \<open>The attributes that \<open>__init__\<close> assigns and no other method writes.\<close>

record 's hand_config =
  target_in_the_air_p :: real
  has_object :: bool
  ignore_target_rotation :: bool
  randomize_initial_arm_pos :: bool
  randomize_initial_object_pos :: bool
  ignore_rotation_ctrl :: bool
  distance_threshold :: real
  rotation_threshold :: real
  reward_type :: string
  success_on_grasp_only :: bool
  object_id :: string
  forearm_bounds :: "real list \<times> real list"
  table_safe_bounds :: "real list \<times> real list"
  grasp_state :: "'s grasp_arg"
  grasp_state_reset_p :: real

text \<open>The environment object: the configuration and the attributes that change during an
  episode. The simulator and the random generator are one value of type \<open>'s\<close>.\<close>

record 's hand_env = "'s hand_config" +
  relative_control :: bool
  sim :: 's
  goal :: "real list"

text \<open>
  \<open>MovingHandEnv.__init__\<close> up to the call of the base class constructor. The second
  argument is the content of the grasp state file, \<open>None\<close> when the file does not exist.
  The scene template strings are not modelled, only whether \<open>xml_format\<close> is a dict.
\<close>

definition MovingHandEnv_init :: "'s hand_kwargs \<Rightarrow> 's option \<Rightarrow> py_error + 's hand_config" where
  "MovingHandEnv_init kw grasp_file =
     (case (case kw_grasp_state kw of
              GraspFlag True \<Rightarrow>
                (case grasp_file of None \<Rightarrow> Inl IOError | Some st \<Rightarrow> Inr (GraspObj st))
            | g \<Rightarrow> Inr g) of
        Inl e \<Rightarrow> Inl e
      | Inr grasp_state' \<Rightarrow>
          if grasp_state' \<noteq> GraspNone \<and> kw_grasp_state_reset_p kw \<le> 0 then
            Inl (ValueError ''grasp_state_reset_p must be greater than zero if grasp_state is specified!'')
          else if kw_ignore_rotation_ctrl kw \<and> \<not> kw_ignore_target_rotation kw then
            Inl (ValueError ''Target rotation must be ignored if arm cannot rotate! Set ignore_target_rotation=True'')
          else if kw_success_on_grasp_only kw \<and> kw_reward_type kw \<noteq> ''sparse'' then
            Inl (ValueError ''Parameter success_on_grasp_only requires sparse rewards!'')
          else if kw_success_on_grasp_only kw \<and> \<not> kw_has_object kw then
            Inl (ValueError ''Parameter success_on_grasp_only requires object to be grasped!'')
          else
            case (if kw_has_object kw then
                    (case map_of OBJECTS (kw_object_id kw) of
                       None \<Rightarrow> Inl KeyError
                     | Some obj \<Rightarrow>
                         (case (mesh_parts obj, mass obj) of
                            (Some n, Some (MassSeq masses)) \<Rightarrow>
                              if length masses = n then Inr True else Inl AssertionError
                          | _ \<Rightarrow> Inr True))
                  else Inr False) of
              Inl e \<Rightarrow> Inl e
            | Inr xml_format_is_dict \<Rightarrow>
                if \<not> xml_format_is_dict then Inl TypeError
                else
                  Inr \<lparr>target_in_the_air_p = kw_target_in_the_air_p kw,
                       has_object = kw_has_object kw,
                       ignore_target_rotation = kw_ignore_target_rotation kw,
                       randomize_initial_arm_pos = kw_randomize_initial_arm_pos kw,
                       randomize_initial_object_pos = kw_randomize_initial_object_pos kw,
                       ignore_rotation_ctrl = kw_ignore_rotation_ctrl kw,
                       distance_threshold = kw_distance_threshold kw,
                       rotation_threshold = kw_rotation_threshold kw,
                       reward_type = kw_reward_type kw,
                       success_on_grasp_only = kw_success_on_grasp_only kw,
                       object_id = kw_object_id kw,
                       forearm_bounds = ([65 / 100, 3 / 10, 42 / 100], [175 / 100, 12 / 10, 1]),
                       table_safe_bounds = ([110 / 100, 43 / 100], [149 / 100, 105 / 100]),
                       grasp_state = grasp_state',
                       grasp_state_reset_p = kw_grasp_state_reset_p kw\<rparr>)"

text \<open>The keyword arguments of \<open>HandPickAndPlaceEnv()\<close>: the class passes
  \<open>reward_type='sparse'\<close> and \<open>has_object=True\<close>, the rest are the defaults of
  \<open>MovingHandEnv.__init__\<close>.\<close>

definition HandPickAndPlaceEnv_kwargs :: "'s hand_kwargs" where
  "HandPickAndPlaceEnv_kwargs =
     \<lparr>kw_reward_type = ''sparse'',
      kw_relative_control = False,
      kw_has_object = True,
      kw_randomize_initial_arm_pos = False,
      kw_randomize_initial_object_pos = True,
      kw_ignore_rotation_ctrl = False,
      kw_distance_threshold = 5 / 100,
      kw_rotation_threshold = 1 / 10,
      kw_ignore_target_rotation = False,
      kw_success_on_grasp_only = False,
      kw_grasp_state = GraspNone,
      kw_grasp_state_reset_p = 0,
      kw_target_in_the_air_p = 1 / 2,
      kw_object_id = ''original'',
      kw_object_cage = False,
      kw_weld_fingers = False\<rparr>"

subsection \<open>Goal distance, success and reward\<close>

definition goal_distance :: "real list \<Rightarrow> real list \<Rightarrow> bool \<Rightarrow> py_error + real \<times> real" where
  "goal_distance goal_a goal_b ignore_rot =
     (if length goal_a \<noteq> length goal_b then Inl AssertionError
      else if length goal_a \<noteq> 7 then Inl AssertionError
      else
        case np_broadcast2 (-) (take 3 goal_a) (take 3 goal_b) of
          Inl e \<Rightarrow> Inl e
        | Inr delta_pos \<Rightarrow>
            let d_pos = np_norm delta_pos in
            if \<not> ignore_rot then
              (case quat_mul (drop 3 goal_a) (quat_conjugate (drop 3 goal_b)) of
                 Inl e \<Rightarrow> Inl e
               | Inr quat_diff \<Rightarrow> Inr (d_pos, 2 * arccos (np_clip (quat_diff ! 0) (- 1) 1)))
            else Inr (d_pos, 0))"

definition check_range :: "real list \<Rightarrow> real list \<Rightarrow> real list \<Rightarrow> bool \<Rightarrow> bool" where
  "check_range a a_min a_max include_bounds =
     (if include_bounds
      then list_all (\<lambda>(lo, x, hi). lo \<le> x \<and> x \<le> hi) (zip a_min (zip a a_max))
      else list_all (\<lambda>(lo, x, hi). lo < x \<and> x < hi) (zip a_min (zip a a_max)))"

definition is_success ::
  "('s, 'z) hand_config_scheme \<Rightarrow> real list \<Rightarrow> real list \<Rightarrow> py_error + real" where
  "is_success self achieved_goal desired_goal =
     (case goal_distance (take 7 achieved_goal) (take 7 desired_goal) (ignore_target_rotation self) of
        Inl e \<Rightarrow> Inl e
      | Inr (d_pos, d_rot) \<Rightarrow>
          let achieved_pos = (if d_pos < distance_threshold self then 1 else 0);
              achieved_rot = (if d_rot < rotation_threshold self then 1 else 0);
              achieved_all = achieved_pos * achieved_rot
          in
            if success_on_grasp_only self then
              (if length achieved_goal \<noteq> 8 then Inl AssertionError
               else
                 let d_palm = achieved_goal ! 7;
                     achieved_grasp = (if d_palm < 8 / 100 then 1 else 0)
                 in Inr (achieved_all * achieved_grasp))
            else Inr achieved_all)"

text \<open>The argument \<open>info\<close> is \<open>None\<close> or a dict; only its key \<open>weights\<close> is read.\<close>

definition compute_reward ::
  "('s, 'z) hand_config_scheme \<Rightarrow> real list \<Rightarrow> real list \<Rightarrow> (string \<rightharpoonup> real) option
     \<Rightarrow> py_error + real" where
  "compute_reward self achieved_goal goal' info =
     (if reward_type self = ''sparse'' then
        (case is_success self achieved_goal goal' of
           Inl e \<Rightarrow> Inl e
         | Inr success \<Rightarrow>
             let weights = (case info of None \<Rightarrow> Map.empty | Some d \<Rightarrow> d) ''weights'' in
             (case weights of
                Some w \<Rightarrow> Inr (success * w - 1)
              | None \<Rightarrow> Inr (success - 1)))
      else
        (case goal_distance achieved_goal goal' (ignore_target_rotation self) of
           Inl e \<Rightarrow> Inl e
         | Inr (d_pos, d_rot) \<Rightarrow> Inr (- (10 * d_pos + d_rot))))"


subsection \<open>The simulator and the inherited methods\<close>

text \<open>
  The physics simulator, the random generator and the base class \<open>HandEnv\<close> are outside
  the source files. They are parameters of the model: a record of operations on the world
  state \<open>'s\<close>, which holds the simulator data and the state of the random generator.
  \<open>np_random_uniform\<close> draws one number and returns the advanced state. The record also
  holds the attributes that code outside the source files computes: \<open>initial_state\<close>, the
  shape of the action space, and \<open>_initial_arm_mocap_pose\<close>, whose quaternion comes from
  \<open>rotations.euler2quat\<close>.
\<close>

record 's hand_sim =
  sim_set_state :: "'s \<Rightarrow> 's \<Rightarrow> 's"
  sim_step :: "'s \<Rightarrow> 's"
  sim_forward :: "'s \<Rightarrow> 's"
  sim_get_joint_qpos :: "string \<Rightarrow> 's \<Rightarrow> real list"
  sim_set_joint_qpos :: "string \<Rightarrow> real list \<Rightarrow> 's \<Rightarrow> 's"
  sim_get_joint_qvel :: "string \<Rightarrow> 's \<Rightarrow> real list"
  sim_get_body_xpos :: "string \<Rightarrow> 's \<Rightarrow> real list"
  sim_get_body_xquat :: "string \<Rightarrow> 's \<Rightarrow> real list"
  sim_get_site_xpos :: "string \<Rightarrow> 's \<Rightarrow> real list"
  sim_mocap_pos :: "'s \<Rightarrow> real list"
  sim_mocap_quat :: "'s \<Rightarrow> real list"
  sim_set_mocap_pos :: "real list \<Rightarrow> 's \<Rightarrow> 's"
  sim_set_mocap_quat :: "real list \<Rightarrow> 's \<Rightarrow> 's"
  sim_nmocap :: nat
  reset_mocap2body_xpos :: "'s \<Rightarrow> 's"
  np_random_uniform :: "real \<Rightarrow> real \<Rightarrow> 's \<Rightarrow> real \<times> 's"
  initial_state :: 's
  initial_arm_mocap_pose :: "real list"
  HandEnv_set_action :: "bool \<Rightarrow> real list \<Rightarrow> 's \<Rightarrow> 's"
  action_space_shape :: nat

text \<open>\<open>np_random.uniform(low, high)\<close> with array bounds, one draw for each component.\<close>

fun uniform_array :: "'s hand_sim \<Rightarrow> real list \<Rightarrow> real list \<Rightarrow> 's \<Rightarrow> real list \<times> 's" where
  "uniform_array ph (lo # los) (hi # his) s =
     (let (x, s1) = np_random_uniform ph lo hi s;
          (xs, s2) = uniform_array ph los his s1
      in (x # xs, s2))"
| "uniform_array ph _ _ s = ([], s)"

definition get_body_pose :: "'s hand_sim \<Rightarrow> string \<Rightarrow> 's \<Rightarrow> real list" where
  "get_body_pose ph body_name s = sim_get_body_xpos ph body_name s @ sim_get_body_xquat ph body_name s"

definition get_object_pose :: "'s hand_sim \<Rightarrow> 's \<Rightarrow> real list" where
  "get_object_pose ph s = get_body_pose ph ''object'' s"

text \<open>\<open>_get_palm_pose(no_rot=True)\<close>: the position of the palm site and a zero rotation.\<close>

definition get_palm_pose_no_rot :: "'s hand_sim \<Rightarrow> 's \<Rightarrow> real list" where
  "get_palm_pose_no_rot ph s = sim_get_site_xpos ph ''robot0:palm_center'' s @ [0, 0, 0, 0]"

definition set_arm_pose ::
  "'s hand_sim \<Rightarrow> ('s, 'z) hand_config_scheme \<Rightarrow> real list \<Rightarrow> 's \<Rightarrow> py_error + 's" where
  "set_arm_pose ph self pose s =
     (if \<not> (length pose = 7 \<or> length pose = 3) then Inl AssertionError
      else
        case np_clip_array (take 3 pose) (fst (forearm_bounds self)) (snd (forearm_bounds self)) of
          Inl e \<Rightarrow> Inl e
        | Inr clipped \<Rightarrow>
            let s1 = sim_set_mocap_pos ph clipped (reset_mocap2body_xpos ph s)
            in if length pose = 7 then Inr (sim_set_mocap_quat ph (drop 3 pose) s1) else Inr s1)"

definition set_action ::
  "'s hand_sim \<Rightarrow> 's hand_env \<Rightarrow> real list \<Rightarrow> py_error + 's hand_env" where
  "set_action ph self action =
     (if length action \<noteq> action_space_shape ph then Inl AssertionError
      else
        let hand_ctrl = take 20 action;
            forearm_ctrl = map (\<lambda>x. x * (1 / 10)) (drop 20 action);
            s1 = HandEnv_set_action ph (relative_control self) hand_ctrl (sim self)
        in
          if sim_nmocap ph \<noteq> 1 then Inl AssertionError
          else
            let pos_delta = take 3 forearm_ctrl;
                quat_delta0 = drop 3 forearm_ctrl;
                quat_delta = (if ignore_rotation_ctrl self then map (\<lambda>x. x * 0) quat_delta0
                              else quat_delta0)
            in
              case np_broadcast2 (+) (sim_mocap_pos ph s1) pos_delta of
                Inl e \<Rightarrow> Inl e
              | Inr new_pos \<Rightarrow>
             (case np_broadcast2 (+) (sim_mocap_quat ph s1) quat_delta of
                Inl e \<Rightarrow> Inl e
              | Inr new_quat \<Rightarrow>
             (case set_arm_pose ph self (new_pos @ new_quat) s1 of
                Inl e \<Rightarrow> Inl e
              | Inr s2 \<Rightarrow> Inr (self\<lparr>sim := s2\<rparr>))))"

subsection \<open>Resetting the simulation\<close>

text \<open>One pass through the body of the loop of \<open>_reset_sim\<close>, up to \<open>sim.forward()\<close>.\<close>

definition reset_attempt ::
  "'s hand_sim \<Rightarrow> bool \<Rightarrow> 's hand_env \<Rightarrow> py_error + 's hand_env" where
  "reset_attempt ph reset_to_grasp_state self =
     (case (if reset_to_grasp_state then
              (if \<not> has_object self then Inl AssertionError
               else
                 case grasp_state self of
                   GraspObj st \<Rightarrow>
                     let rel_ctrl = relative_control self;
                         self1 = self\<lparr>sim := sim_set_state ph st (sim self), relative_control := True\<rparr>
                     in (case set_action ph self1 (replicate (action_space_shape ph) 0) of
                           Inl e \<Rightarrow> Inl e
                         | Inr self2 \<Rightarrow> Inr (self2\<lparr>relative_control := rel_ctrl\<rparr>))
                 | _ \<Rightarrow> Inl TypeError)
            else Inr (self\<lparr>sim := sim_set_state ph (initial_state ph) (sim self)\<rparr>)) of
        Inl e \<Rightarrow> Inl e
      | Inr self1 \<Rightarrow>
          let pose0 = initial_arm_mocap_pose ph;
              (new_arm_pose, s1) =
                (if randomize_initial_arm_pos self1 then
                   let (noise, t) =
                         uniform_array ph [- (2 / 10), - (2 / 10)] [2 / 10, 2 / 10] (sim self1)
                   in (map2 (+) (take 2 pose0) noise @ drop 2 pose0, t)
                 else (pose0, sim self1))
          in
            case set_arm_pose ph self1 new_arm_pose s1 of
              Inl e \<Rightarrow> Inl e
            | Inr s2 \<Rightarrow>
                let s3 = (sim_step ph ^^ 10) s2;
                    s4 =
                      (if has_object self1 \<and> \<not> reset_to_grasp_state then
                         let object_qpos = sim_get_joint_qpos ph ''object:joint'' s3;
                             (object_xpos, s3') =
                               (if randomize_initial_object_pos self1
                                then uniform_array ph (fst (table_safe_bounds self1))
                                       (snd (table_safe_bounds self1)) s3
                                else
                                  let (jitter, t) =
                                        uniform_array ph [- (5 / 1000), - (5 / 1000)] [5 / 1000, 5 / 1000] s3
                                  in (map2 (+) (take 2 (get_palm_pose_no_rot ph s3)) jitter, t))
                         in sim_set_joint_qpos ph ''object:joint''
                              (object_xpos @ drop 2 object_qpos) s3'
                       else s3)
                in Inr (self1\<lparr>sim := sim_forward ph s4\<rparr>))"

text \<open>The test at the end of the loop body that decides whether the loop is left.\<close>

definition reset_accepts :: "'s hand_sim \<Rightarrow> bool \<Rightarrow> 's hand_env \<Rightarrow> bool" where
  "reset_accepts ph reset_to_grasp_state self =
     (if \<not> has_object self then True
      else
        let object_pos = take 3 (get_object_pose ph (sim self));
            object_vel = sim_get_joint_qvel ph ''object:joint'' (sim self);
            object_still = (np_norm object_vel < 8 / 10)
        in
          if reset_to_grasp_state then
            (let palm_pos = take 3 (get_palm_pose_no_rot ph (sim self));
                 object_on_palm = (np_norm (map2 (-) object_pos palm_pos) < 8 / 100)
             in object_still \<and> object_on_palm)
          else
            (let object_on_table =
                   check_range (take 2 object_pos) (fst (table_safe_bounds self))
                     (snd (table_safe_bounds self)) True
             in object_still \<and> object_on_table))"

text \<open>The loop \<open>while True\<close> of \<open>_reset_sim\<close>: it has no bound, so the model is partial, and
  \<open>None\<close> stands for a loop that never ends.\<close>

partial_function (option) reset_loop ::
  "'s hand_sim \<Rightarrow> bool \<Rightarrow> 's hand_env \<Rightarrow> (py_error + 's hand_env) option" where
  "reset_loop ph reset_to_grasp_state self =
     (case reset_attempt ph reset_to_grasp_state self of
        Inl e \<Rightarrow> Some (Inl e)
      | Inr self1 \<Rightarrow>
          if reset_accepts ph reset_to_grasp_state self1 then Some (Inr self1)
          else reset_loop ph reset_to_grasp_state self1)"

definition reset_sim :: "'s hand_sim \<Rightarrow> 's hand_env \<Rightarrow> (py_error + 's hand_env) option" where
  "reset_sim ph self =
     (let (u, s1) = np_random_uniform ph 0 1 (sim self);
          reset_to_grasp_state = (grasp_state_reset_p self > u)
      in reset_loop ph reset_to_grasp_state (self\<lparr>sim := s1\<rparr>))"

text \<open>The outcome of the first n passes through the loop body, for stating how many
  samples the loop rejects.\<close>

fun reset_attempts ::
  "'s hand_sim \<Rightarrow> bool \<Rightarrow> nat \<Rightarrow> 's hand_env \<Rightarrow> py_error + 's hand_env" where
  "reset_attempts ph g 0 self = Inr self"
| "reset_attempts ph g (Suc n) self =
     (case reset_attempt ph g self of
        Inl e \<Rightarrow> Inl e
      | Inr self1 \<Rightarrow> reset_attempts ph g n self1)"


subsection \<open>A test double of the simulator\<close>

text \<open>
  A simulator for running the model on concrete inputs. Its state counts the calls of
  \<open>forward\<close>; the object lies beside the table until the third call and on the table,
  at rest, from then on. Every draw of the random generator returns the middle of its range.
\<close>

definition test_sim :: "nat hand_sim" where
  "test_sim =
     \<lparr>sim_set_state = (\<lambda>snapshot s. s),
      sim_step = (\<lambda>s. s),
      sim_forward = Suc,
      sim_get_joint_qpos = (\<lambda>name s. [0, 0, 0, 1, 0, 0, 0]),
      sim_set_joint_qpos = (\<lambda>name qpos s. s),
      sim_get_joint_qvel = (\<lambda>name s. [0, 0, 0, 0, 0, 0]),
      sim_get_body_xpos = (\<lambda>name s. if 3 \<le> s then [12 / 10, 1 / 2, 4 / 10] else [2, 1 / 2, 4 / 10]),
      sim_get_body_xquat = (\<lambda>name s. [1, 0, 0, 0]),
      sim_get_site_xpos = (\<lambda>name s. [1, 3 / 4, 1 / 2]),
      sim_mocap_pos = (\<lambda>s. [1, 3 / 4, 1 / 2]),
      sim_mocap_quat = (\<lambda>s. [1, 0, 0, 0]),
      sim_set_mocap_pos = (\<lambda>pos s. s),
      sim_set_mocap_quat = (\<lambda>quat s. s),
      sim_nmocap = 1,
      reset_mocap2body_xpos = (\<lambda>s. s),
      np_random_uniform = (\<lambda>lo hi s. ((lo + hi) / 2, s)),
      initial_state = 0,
      initial_arm_mocap_pose = [105 / 100, 75 / 100, 65 / 100, 1, 0, 0, 0],
      HandEnv_set_action = (\<lambda>relative hand_ctrl s. s),
      action_space_shape = 27\<rparr>"

text \<open>The environment that \<open>HandPickAndPlaceEnv()\<close> configures, over the test simulator
  before any call of \<open>forward\<close>.\<close>

definition test_env :: "nat hand_env" where
  "test_env =
     \<lparr>target_in_the_air_p = 1 / 2, has_object = True, ignore_target_rotation = False,
      randomize_initial_arm_pos = False, randomize_initial_object_pos = True,
      ignore_rotation_ctrl = False, distance_threshold = 5 / 100, rotation_threshold = 1 / 10,
      reward_type = ''sparse'', success_on_grasp_only = False, object_id = ''original'',
      forearm_bounds = ([65 / 100, 3 / 10, 42 / 100], [175 / 100, 12 / 10, 1]),
      table_safe_bounds = ([110 / 100, 43 / 100], [149 / 100, 105 / 100]),
      grasp_state = GraspNone, grasp_state_reset_p = 0,
      relative_control = False, sim = 0, goal = [12 / 10, 1 / 2, 4 / 10, 0, 0, 0, 0]\<rparr>"

section \<open>gym/envs/yumi/yumi_env.py\<close>

record yumi_env =
  arm :: string
  block_gripper :: bool
  yumi_reward_type :: string
  yumi_has_object :: bool
  yumi_distance_threshold :: real

definition has_right_arm :: "yumi_env \<Rightarrow> bool" where
  "has_right_arm self = (arm self = ''right'' \<or> arm self = ''both'')"

definition has_left_arm :: "yumi_env \<Rightarrow> bool" where
  "has_left_arm self = (arm self = ''left'' \<or> arm self = ''both'')"

definition has_two_arms :: "yumi_env \<Rightarrow> bool" where
  "has_two_arms self = (arm self = ''both'')"

definition yumi_is_success :: "yumi_env \<Rightarrow> real list \<Rightarrow> real list \<Rightarrow> py_error + real" where
  "yumi_is_success self achieved_goal desired_goal =
     (case np_broadcast2 (-) achieved_goal desired_goal of
        Inl e \<Rightarrow> Inl e
      | Inr diff \<Rightarrow> Inr (if np_norm diff < yumi_distance_threshold self then 1 else 0))"

definition yumi_compute_reward ::
  "yumi_env \<Rightarrow> real list \<Rightarrow> real list \<Rightarrow> (string \<rightharpoonup> real) option \<Rightarrow> py_error + real" where
  "yumi_compute_reward self achieved_goal desired_goal info =
     (if length achieved_goal \<noteq> length desired_goal then Inl AssertionError
      else if yumi_reward_type self = ''sparse'' then
        (if yumi_has_object self then Inl NotImplementedError
         else
           case yumi_is_success self (take 3 achieved_goal) (take 3 desired_goal) of
             Inl e \<Rightarrow> Inl e
           | Inr sl \<Rightarrow>
          (case yumi_is_success self (drop 3 achieved_goal) (drop 3 desired_goal) of
             Inl e \<Rightarrow> Inl e
           | Inr sr \<Rightarrow>
               let success_l = (if has_left_arm self then 1 else 0) * sl;
                   success_r = (if has_right_arm self then 1 else 0) * sr;
                   success = success_l + success_r
               in if has_two_arms self then Inr (success - 2) else Inr (success - 1)))
      else
        (case np_broadcast2 (-) achieved_goal desired_goal of
           Inl e \<Rightarrow> Inl e
         | Inr diff \<Rightarrow> Inr (- np_norm diff)))"

section \<open>gym/envs/yumi/yumi_constrained.py\<close>

text \<open>The attributes of \<open>YumiConstrainedEnv\<close>; the wrapped simulation environment
  \<open>sim_env\<close>, with its simulator and its goal, is one value of type \<open>'s\<close>.\<close>

record 's yumi_constrained_env =
  yc_reward_type :: string
  yc_distance_threshold :: real
  rotation_ctrl_enabled :: bool
  fingers_ctrl_enabled :: bool
  sim_env :: 's

definition n_actions :: "('s, 'z) yumi_constrained_env_scheme \<Rightarrow> nat" where
  "n_actions self =
     4 + (if rotation_ctrl_enabled self then 4 else 0) + (if fingers_ctrl_enabled self then 2 else 0)"

definition action_space_low :: "('s, 'z) yumi_constrained_env_scheme \<Rightarrow> real list" where
  "action_space_low self = replicate (n_actions self) (- 1)"

definition action_space_high :: "('s, 'z) yumi_constrained_env_scheme \<Rightarrow> real list" where
  "action_space_high self = replicate (n_actions self) 1"

definition yc_goal_distance :: "real list \<Rightarrow> real list \<Rightarrow> py_error + real" where
  "yc_goal_distance goal_a goal_b =
     (if length goal_a \<noteq> length goal_b then Inl AssertionError
      else if length goal_a \<noteq> 3 then Inl AssertionError
      else
        case np_broadcast2 (-) (take 3 goal_a) (take 3 goal_b) of
          Inl e \<Rightarrow> Inl e
        | Inr delta_pos \<Rightarrow> Inr (np_norm delta_pos))"

definition yc_is_success ::
  "('s, 'z) yumi_constrained_env_scheme \<Rightarrow> real list \<Rightarrow> real list \<Rightarrow> py_error + real" where
  "yc_is_success self achieved_goal desired_goal =
     (case yc_goal_distance achieved_goal desired_goal of
        Inl e \<Rightarrow> Inl e
      | Inr d \<Rightarrow> Inr (if d < yc_distance_threshold self then 1 else 0))"

definition yc_compute_reward ::
  "('s, 'z) yumi_constrained_env_scheme \<Rightarrow> real list \<Rightarrow> real list \<Rightarrow> (string \<rightharpoonup> real) option
     \<Rightarrow> py_error + real" where
  "yc_compute_reward self achieved_goal goal' info =
     (if yc_reward_type self = ''sparse'' then
        (case yc_is_success self achieved_goal goal' of
           Inl e \<Rightarrow> Inl e
         | Inr success \<Rightarrow> Inr (success - 1))
      else
        (case yc_goal_distance achieved_goal goal' of
           Inl e \<Rightarrow> Inl e
         | Inr d \<Rightarrow> Inr (- d)))"

text \<open>The tuple that \<open>_unpack_action\<close> returns.\<close>

record unpacked_action =
  dist_between_grippers :: real
  grasp_center_pos_delta :: "real list"
  grasp_center_quat_delta :: "real list"
  l_fingers_ctrl :: real
  r_fingers_ctrl :: real

definition unpack_action ::
  "('s, 'z) yumi_constrained_env_scheme \<Rightarrow> real list \<Rightarrow> py_error + unpacked_action" where
  "unpack_action self action =
     (if action = [] then Inl IndexError
      else
        let d = action ! 0;
            pos_delta = take 3 (drop 1 action);
            (quat_delta, offset) =
              (if rotation_ctrl_enabled self then (take 4 (drop 4 action), 8)
               else ([1, 0, 0, 0], 4))
        in
          if fingers_ctrl_enabled self then
            (let fingers = take 2 (drop offset action) in
             if length fingers \<noteq> 2 then Inl (ValueError ''not enough values to unpack'')
             else Inr \<lparr>dist_between_grippers = d, grasp_center_pos_delta = pos_delta,
                       grasp_center_quat_delta = quat_delta,
                       l_fingers_ctrl = fingers ! 0, r_fingers_ctrl = fingers ! 1\<rparr>)
          else Inr \<lparr>dist_between_grippers = d, grasp_center_pos_delta = pos_delta,
                    grasp_center_quat_delta = quat_delta,
                    l_fingers_ctrl = - 1, r_fingers_ctrl = - 1\<rparr>)"

text \<open>The keyword arguments with which \<open>step\<close> calls \<open>_move_arms\<close>.\<close>

record arm_commands =
  left_target :: "real list"
  left_yaw :: real
  right_target :: "real list"
  right_yaw :: real
  left_grp_config :: real
  right_grp_config :: real

text \<open>Assignment to the slice \<open>[:3]\<close> of an array: the value has three components or one,
  which is broadcast.\<close>

definition np_assign_slice3 :: "real list \<Rightarrow> real list \<Rightarrow> py_error + real list" where
  "np_assign_slice3 target v =
     (if length v = min 3 (length target) then Inr (v @ drop 3 target)
      else if length v = 1 then Inr (replicate (min 3 (length target)) (hd v) @ drop 3 target)
      else Inl (ValueError ''could not broadcast input array''))"

text \<open>
  \<open>YumiConstrainedEnv.step\<close> from its first line to the call of \<open>_move_arms\<close>, whose
  arguments it returns. The argument \<open>curr_grasp_center_pose\<close> is what
  \<open>get_grasp_center_pos\<close> reads from the simulator.
\<close>

definition step_commands ::
  "('s, 'z) yumi_constrained_env_scheme \<Rightarrow> real list \<Rightarrow> real list \<Rightarrow> py_error + arm_commands" where
  "step_commands self curr_grasp_center_pose action0 =
     (case np_clip_array action0 (action_space_low self) (action_space_high self) of
        Inl e \<Rightarrow> Inl e
      | Inr action \<Rightarrow>
     (case unpack_action self action of
        Inl e \<Rightarrow> Inl e
      | Inr u \<Rightarrow>
          let dist = np_interp (dist_between_grippers u) (- 1, 1) (5 / 100, 30 / 100);
              target0 = [0, 0, 0, 1, 0, 0, 0]
          in
     (case np_broadcast2 (+) (take 3 curr_grasp_center_pose)
             (map (\<lambda>x. x * (2 / 10)) (grasp_center_pos_delta u)) of
        Inl e \<Rightarrow> Inl e
      | Inr moved \<Rightarrow>
     (case np_assign_slice3 target0 moved of
        Inl e \<Rightarrow> Inl e
      | Inr target_grasp_center_pose \<Rightarrow>
          if rotation_ctrl_enabled self then Inl NotImplementedError
          else
     (case apply_tf [0, dist / 2, 0, 1, 0, 0, 0] target_grasp_center_pose of
        Inl e \<Rightarrow> Inl e
      | Inr tf0 \<Rightarrow>
     (case apply_tf [0, - dist / 2, 0, 1, 0, 0, 0] target_grasp_center_pose of
        Inl e \<Rightarrow> Inl e
      | Inr tf1 \<Rightarrow>
          let grippers_pos_targets = [take 3 tf0, take 3 tf1] in
     (case np_broadcast2 (-) (take 2 (grippers_pos_targets ! 0)) (take 2 (grippers_pos_targets ! 1)) of
        Inl e \<Rightarrow> Inl e
      | Inr vec \<Rightarrow>
          if length vec < 2 then Inl IndexError
          else
            let right_yaw' = np_arctan2 (vec ! 1) (vec ! 0) + pi / 2;
                left_yaw' = np_arctan2 (- (vec ! 1)) (- (vec ! 0)) + pi / 2;
                grasp_radius = np_norm vec / 2
            in
              if \<not> np_allclose grasp_radius (dist / 2) then Inl AssertionError
              else
                Inr \<lparr>left_target = grippers_pos_targets ! 0, left_yaw = left_yaw',
                     right_target = grippers_pos_targets ! 1, right_yaw = right_yaw',
                     left_grp_config = l_fingers_ctrl u,
                     right_grp_config = r_fingers_ctrl u\<rparr>)))))))"


section \<open>Lists of a known length, and the quaternion helpers on them\<close>

lemma list_len3: "length q = 3 \<Longrightarrow> \<exists>a b c. q = [a,b,c]"
  by (auto simp: length_Suc_conv eval_nat_numeral)
lemma list_len4: "length q = 4 \<Longrightarrow> \<exists>a b c d. q = [a,b,c,d]"
  by (auto simp: length_Suc_conv eval_nat_numeral)
lemma list_len7: "length q = 7 \<Longrightarrow> \<exists>a b c d e f g. q = [a,b,c,d,e,f,g]"
  by (auto simp: length_Suc_conv eval_nat_numeral)

lemma np_norm4: "np_norm [a, b, c, d] = 1 \<longleftrightarrow> a * a + b * b + c * c + d * d = 1"
  by (simp add: np_norm_def add.assoc)

lemma quat_mul4:
  "quat_mul [a, b, c, d] [e, f, g, h] =
     Inr [a * e - b * f - c * g - d * h, a * f + b * e + c * h - d * g,
          a * g + c * e + d * f - b * h, a * h + d * e + b * g - c * f]"
  by (simp add: quat_mul_def)

lemma quat_conjugate4: "quat_conjugate [a, b, c, d] = [a, - b, - c, - d]"
  by (simp add: quat_conjugate_def)

lemma quat_rot_vec4:
  "quat_rot_vec [a, b, c, d] [x, y, z] =
     Inr [(a * a + b * b - c * c - d * d) * x + 2 * (b * c - a * d) * y + 2 * (b * d + a * c) * z,
          2 * (b * c + a * d) * x + (a * a - b * b + c * c - d * d) * y + 2 * (c * d - a * b) * z,
          2 * (b * d - a * c) * x + 2 * (c * d + a * b) * y + (a * a - b * b - c * c + d * d) * z]"
  by (simp add: quat_rot_vec_def quat_mul4 quat_conjugate4 algebra_simps)

lemma quat_mul_len: "length q0 = 4 \<Longrightarrow> length q1 = 4 \<Longrightarrow> \<exists>r. quat_mul q0 q1 = Inr r \<and> length r = 4"
  by (simp add: quat_mul_def Let_def)

lemma quat_mul_err: "length q0 \<noteq> 4 \<or> length q1 \<noteq> 4 \<Longrightarrow> quat_mul q0 q1 = Inl AssertionError"
  by (auto simp add: quat_mul_def Let_def)

lemma quat_conjugate_len [simp]: "length (quat_conjugate q) = length q"
  by (cases q) (simp_all add: quat_conjugate_def)

lemma quat_rot_vec_len: "length q = 4 \<Longrightarrow> 3 \<le> length v \<Longrightarrow> \<exists>r. quat_rot_vec q v = Inr r \<and> length r = 3"
proof -
  assume q: "length q = 4" and v: "3 \<le> length v"
  obtain t where t: "quat_mul [0, v ! 0, v ! 1, v ! 2] (quat_conjugate q) = Inr t" "length t = 4"
    using quat_mul_len [of "[0, v ! 0, v ! 1, v ! 2]" "quat_conjugate q"] q by auto
  obtain u where u: "quat_mul q t = Inr u" "length u = 4"
    using quat_mul_len [OF q t(2)] by auto
  show ?thesis using v t u by (simp add: quat_rot_vec_def)
qed

lemma quat_rot_vec_err: "length q \<noteq> 4 \<or> length v < 3 \<Longrightarrow> isl (quat_rot_vec q v)"
  by (auto simp: quat_rot_vec_def quat_mul_err split: sum.splits)

lemma quat_rot_vec_inverse:
  fixes a b c d x y z :: real
  assumes n: "a * a + b * b + c * c + d * d = 1"
  defines "r0 \<equiv> (a * a + b * b - c * c - d * d) * x + 2 * (b * c - a * d) * y + 2 * (b * d + a * c) * z"
      and "r1 \<equiv> 2 * (b * c + a * d) * x + (a * a - b * b + c * c - d * d) * y + 2 * (c * d - a * b) * z"
      and "r2 \<equiv> 2 * (b * d - a * c) * x + 2 * (c * d + a * b) * y + (a * a - b * b - c * c + d * d) * z"
  shows "quat_rot_vec [a, - b, - c, - d] [r0, r1, r2] = Inr [x, y, z]"
proof -
  let ?N = "a * a + b * b + c * c + d * d"
  have "(a * a + b * b - c * c - d * d) * r0 + 2 * (b * c + a * d) * r1 + 2 * (b * d - a * c) * r2
        = ?N * ?N * x"
    unfolding r0_def r1_def r2_def by algebra
  moreover have "2 * (b * c - a * d) * r0 + (a * a - b * b + c * c - d * d) * r1 + 2 * (c * d + a * b) * r2
        = ?N * ?N * y"
    unfolding r0_def r1_def r2_def by algebra
  moreover have "2 * (b * d + a * c) * r0 + 2 * (c * d - a * b) * r1 + (a * a - b * b - c * c + d * d) * r2
        = ?N * ?N * z"
    unfolding r0_def r1_def r2_def by algebra
  ultimately show ?thesis
    by (simp add: quat_rot_vec4 n)
qed

section \<open>The transform library\<close>

subsection \<open>What the round trip through \<open>apply_tf\<close> and \<open>get_tf\<close> returns\<close>

text \<open>
  For 7-vector poses and a unit reference quaternion, \<open>get_tf (apply_tf p w) w\<close> returns
  the position of p, and as orientation the quaternion of p conjugated by the quaternion
  of w: the product \<open>w * p * conjugate w\<close>, not p.
\<close>

lemma get_tf_apply_tf_what_it_does:
  assumes "length p = 7" "length w = 7" "np_norm (drop 3 w) = 1"
  shows "\<exists>b r t. apply_tf p w = Inr b \<and> get_tf b w = Inr r \<and> take 3 r = take 3 p \<and>
           quat_mul (drop 3 w) (drop 3 p) = Inr t \<and>
           quat_mul t (quat_conjugate (drop 3 w)) = Inr (drop 3 r)"
proof -
  obtain x y z pw px py pz where p: "p = [x, y, z, pw, px, py, pz]"
    using list_len7 [OF assms(1)] by auto
  obtain w0 w1 w2 a b c d where w: "w = [w0, w1, w2, a, b, c, d]"
    using list_len7 [OF assms(2)] by auto
  have n: "a * a + b * b + c * c + d * d = 1" using assms(3) by (simp add: w np_norm4)
  define r0 where "r0 = (a * a + b * b - c * c - d * d) * x + 2 * (b * c - a * d) * y + 2 * (b * d + a * c) * z"
  define r1 where "r1 = 2 * (b * c + a * d) * x + (a * a - b * b + c * c - d * d) * y + 2 * (c * d - a * b) * z"
  define r2 where "r2 = 2 * (b * d - a * c) * x + 2 * (c * d + a * b) * y + (a * a - b * b - c * c + d * d) * z"
  obtain t where t: "quat_mul [a, b, c, d] [pw, px, py, pz] = Inr t" "length t = 4"
    by (simp add: quat_mul4)
  obtain u where u: "quat_mul t [a, - b, - c, - d] = Inr u" "length u = 4"
    using t(2) by (simp add: quat_mul_def Let_def)
  have fwd: "apply_tf p w = Inr ([w0 + r0, w1 + r1, w2 + r2] @ t)"
    using t by (simp add: p w apply_tf_def quat_rot_vec4 np_broadcast2_def r0_def r1_def r2_def)
  have inv: "quat_rot_vec [a, - b, - c, - d] [r0, r1, r2] = Inr [x, y, z]"
    unfolding r0_def r1_def r2_def using n by (rule quat_rot_vec_inverse)
  have "get_tf ([w0 + r0, w1 + r1, w2 + r2] @ t) w = Inr ([x, y, z] @ u)"
    using t u inv
    by (simp add: w get_tf_def np_broadcast2_def quat_identity_def quat_conjugate4 quat_mul4)
  then show ?thesis using fwd t u by (simp add: p w quat_conjugate4)
qed

text \<open>
  C1. The round trip \<open>get_tf (apply_tf p w) w\<close> is claimed to return p in position and in
  orientation. At the pose p with position (1, 2, 3) and the unit quaternion (0, 1, 0, 0),
  and the reference pose w with position (4, 5, 6) and the unit quaternion
  (3/5, 0, 0, 4/5), the code returns the position of p, but the orientation
  (0, -7/25, 24/25, 0), which is neither the quaternion of p nor its negative.
\<close>

theorem get_tf_apply_tf_orientation_mismatch:
  "apply_tf [1, 2, 3, 0, 1, 0, 0] [4, 5, 6, 3 / 5, 0, 0, 4 / 5] =
     Inr [9 / 5, 27 / 5, 9, 0, 3 / 5, 4 / 5, 0] \<and>
   get_tf [9 / 5, 27 / 5, 9, 0, 3 / 5, 4 / 5, 0] [4, 5, 6, 3 / 5, 0, 0, 4 / 5] =
     Inr [1, 2, 3, 0, - 7 / 25, 24 / 25, 0]"
  by (simp add: apply_tf_def get_tf_def quat_rot_vec4 quat_mul4 quat_conjugate4 np_broadcast2_def
        quat_identity_def)

subsection \<open>The angular difference\<close>

lemma np_mod_range:
  assumes "0 < m"
  shows "0 \<le> np_mod x m" and "np_mod x m < m"
proof -
  have lo: "of_int \<lfloor>x / m\<rfloor> \<le> x / m" by (rule of_int_floor_le)
  have hi: "x / m < of_int \<lfloor>x / m\<rfloor> + 1" by linarith
  have "m * of_int \<lfloor>x / m\<rfloor> \<le> m * (x / m)"
    using lo assms by (simp only: mult_le_cancel_left_pos)
  then show "0 \<le> np_mod x m" using assms by (simp add: np_mod_def)
  have "m * (x / m) < m * (of_int \<lfloor>x / m\<rfloor> + 1)"
    using hi assms by (simp only: mult_less_cancel_left_pos)
  then show "np_mod x m < m" using assms by (simp add: np_mod_def algebra_simps)
qed

lemma normalize_angles_range: "- pi \<le> normalize_angles a" "normalize_angles a < pi"
  using np_mod_range [of "2 * pi" "a + pi"] pi_gt_zero
  by (simp_all add: normalize_angles_def)

lemma normalize_angles_0: "normalize_angles 0 = 0"
proof -
  have "\<lfloor>pi / (2 * pi)\<rfloor> = (0::int)" by simp
  then show ?thesis by (simp add: normalize_angles_def np_mod_def)
qed

lemma normalize_angles_2pi: "normalize_angles (2 * pi) = 0"
proof -
  have "(2 * pi + pi) / (2 * pi) = 3 / 2" by (simp add: field_simps)
  moreover have "\<lfloor>3 / 2 :: real\<rfloor> = 1" by linarith
  ultimately have "\<lfloor>(2 * pi + pi) / (2 * pi)\<rfloor> = (1::int)" by simp
  then show ?thesis by (simp add: normalize_angles_def np_mod_def)
qed

lemma quat_angle_diff_range:
  assumes "length a = 4" "length b = 4"
  shows "\<exists>r. quat_angle_diff a b = Inr r \<and> 0 \<le> r \<and> r \<le> pi"
proof -
  obtain d where d: "quat_mul a (quat_conjugate b) = Inr d"
    using assms by (cases b) (auto simp: quat_mul_def Let_def quat_conjugate_def)
  have "\<bar>normalize_angles t\<bar> \<le> pi" for t
    using normalize_angles_range [of t] by linarith
  then show ?thesis using d by (simp add: quat_angle_diff_def)
qed

lemma quat_angle_diff_self:
  assumes "length q = 4" "np_norm q = 1"
  shows "quat_angle_diff q q = Inr 0"
proof -
  obtain a b c d where q: "q = [a, b, c, d]" using list_len4 [OF assms(1)] by auto
  have n: "a * a + b * b + c * c + d * d = 1" using assms(2) by (simp add: q np_norm4)
  have "quat_mul q (quat_conjugate q) = Inr [a * a + b * b + c * c + d * d, 0, 0, 0]"
    by (simp add: q quat_mul_def quat_conjugate_def algebra_simps)
  then show ?thesis
    by (simp add: quat_angle_diff_def n np_clip_def normalize_angles_0)
qed

lemma quat_angle_diff_neg:
  assumes "length q = 4" "np_norm q = 1"
  shows "quat_angle_diff q (map uminus q) = Inr 0"
proof -
  obtain a b c d where q: "q = [a, b, c, d]" using list_len4 [OF assms(1)] by auto
  have n: "a * a + b * b + c * c + d * d = 1" using assms(2) by (simp add: q np_norm4)
  have "quat_mul q (quat_conjugate (map uminus q)) = Inr [- (a * a + b * b + c * c + d * d), 0, 0, 0]"
    by (simp add: q quat_mul_def quat_conjugate_def algebra_simps)
  then show ?thesis
    by (simp add: quat_angle_diff_def n np_clip_def normalize_angles_2pi)
qed

text \<open>
  C5. For all quaternions \<open>quat_a\<close> and \<open>quat_b\<close> (4-vectors, unit or not)
  \<open>quat_angle_diff\<close> returns an angle between 0 and pi, and for every unit quaternion q
  the angle between q and q and the angle between q and -q are both 0.
\<close>

theorem quat_angle_diff_canonical:
  "(length quat_a = 4 \<and> length quat_b = 4 \<longrightarrow>
      (\<exists>r. quat_angle_diff quat_a quat_b = Inr r \<and> 0 \<le> r \<and> r \<le> pi)) \<and>
   (length q = 4 \<and> np_norm q = 1 \<longrightarrow>
      quat_angle_diff q q = Inr 0 \<and> quat_angle_diff q (map uminus q) = Inr 0)"
  using quat_angle_diff_range [of quat_a quat_b] quat_angle_diff_self [of q]
    quat_angle_diff_neg [of q]
  by blast

text \<open>The identity against a half turn about the x axis, and the unit quaternion
  (3/5, 0, 0, 4/5) against itself and against its negative.\<close>

theorem quat_angle_diff_canonical_witness:
  "(\<exists>r. quat_angle_diff [1, 0, 0, 0] [0, 1, 0, 0] = Inr r \<and> 0 \<le> r \<and> r \<le> pi) \<and>
   quat_angle_diff [3 / 5, 0, 0, 4 / 5] [3 / 5, 0, 0, 4 / 5] = Inr 0 \<and>
   quat_angle_diff [3 / 5, 0, 0, 4 / 5] [- (3 / 5), 0, 0, - (4 / 5)] = Inr 0"
proof -
  have n: "np_norm [3 / 5, 0, 0, 4 / 5] = 1"
    by (simp add: np_norm4)
  show ?thesis
    using quat_angle_diff_canonical [of "[1, 0, 0, 0]" "[0, 1, 0, 0]" "[3 / 5, 0, 0, 4 / 5]"] n
    by simp
qed

subsection \<open>The shapes that \<open>apply_tf\<close> accepts and returns\<close>

lemma apply_tf_77:
  assumes "length a = 7" "length w = 7"
  shows "\<exists>r. apply_tf a w = Inr r \<and> length r = 7"
proof -
  obtain rot where rot: "quat_rot_vec (drop 3 w) (take 3 a) = Inr rot" "length rot = 3"
    using quat_rot_vec_len [of "drop 3 w" "take 3 a"] assms by auto
  obtain nq where nq: "quat_mul (drop 3 w) (drop 3 a) = Inr nq" "length nq = 4"
    using quat_mul_len [of "drop 3 w" "drop 3 a"] assms by auto
  show ?thesis using assms rot nq
    by (simp add: apply_tf_def np_broadcast2_def)
qed

lemma apply_tf_pad_a:
  "length a = 3 \<Longrightarrow> apply_tf a w = apply_tf (a @ [1, 0, 0, 0]) w"
  by (simp add: apply_tf_def)

lemma apply_tf_pad_w:
  assumes "length w = 3" "length a = 7"
  shows "apply_tf a w = (case apply_tf a (w @ [1, 0, 0, 0]) of Inl e \<Rightarrow> Inl e | Inr full \<Rightarrow> Inr (take 3 full))"
proof -
  obtain rot where rot: "quat_rot_vec [1,0,0,0] (take 3 a) = Inr rot" "length rot = 3"
    using quat_rot_vec_len [of "[1,0,0,0]" "take 3 a"] assms by auto
  obtain nq where nq: "quat_mul [1,0,0,0] (drop 3 a) = Inr nq" "length nq = 4"
    using quat_mul_len [of "[1,0,0,0]" "drop 3 a"] assms by auto
  show ?thesis using assms rot nq
    by (simp add: apply_tf_def np_broadcast2_def)
qed



lemma apply_tf_bad_w:
  assumes "length w \<noteq> 3" "length w \<noteq> 7"
  shows "isl (apply_tf a w)"
proof -
  define ap where "ap = (if length a = 3 then a @ [1, 0, 0, 0] else a)"
  have "length (drop 3 w) \<noteq> 4" using assms by auto
  then obtain e where "quat_rot_vec (drop 3 w) (take 3 ap) = Inl e"
    using quat_rot_vec_err [of "drop 3 w" "take 3 ap"] by (auto simp: isl_def)
  then show ?thesis using assms
    by (simp add: apply_tf_def Let_def ap_def)
qed

lemma apply_tf_bad_a:
  assumes "length a \<noteq> 3" "length a \<noteq> 7"
  shows "isl (apply_tf a w)"
proof -
  define wp where "wp = (if length w = 3 then w @ [1, 0, 0, 0] else w)"
  have unfold: "apply_tf a w =
     (case quat_rot_vec (drop 3 wp) (take 3 a) of
          Inl e \<Rightarrow> Inl e
        | Inr rotated \<Rightarrow>
       (case np_broadcast2 (+) (take 3 wp) rotated of
          Inl e \<Rightarrow> Inl e
        | Inr new_pos \<Rightarrow>
       (case quat_mul (drop 3 wp) (drop 3 a) of
          Inl e \<Rightarrow> Inl e
        | Inr new_quat \<Rightarrow> if length w = 3 then Inr new_pos else Inr (new_pos @ new_quat))))"
    using assms by (simp add: apply_tf_def Let_def wp_def cong: sum.case_cong)
  show ?thesis
  proof (cases "length a < 3")
    case True
    then obtain e where "quat_rot_vec (drop 3 wp) (take 3 a) = Inl e"
      using quat_rot_vec_err [of "drop 3 wp" "take 3 a"] by (auto simp: isl_def)
    then show ?thesis by (simp add: unfold)
  next
    case False
    then have "length (drop 3 a) \<noteq> 4" using assms by auto
    then have "quat_mul (drop 3 wp) (drop 3 a) = Inl AssertionError"
      by (simp add: quat_mul_err)
    then show ?thesis by (simp add: unfold split: sum.splits)
  qed
qed

text \<open>
  C6, as the code has it. \<open>apply_tf\<close> succeeds exactly when each argument is a 3-vector or
  a 7-vector. A 3-vector argument is completed with the identity quaternion. The result
  is a 3-vector exactly when \<open>world_to_a\<close> is a 3-vector; it is a 7-vector otherwise, also
  when only \<open>a_to_b\<close> is position-only.
\<close>

theorem apply_tf_shapes:
  "(length a \<in> {3, 7} \<and> length w \<in> {3, 7} \<longrightarrow>
      (\<exists>r. apply_tf a w = Inr r \<and> length r = (if length w = 3 then 3 else 7)) \<and>
      apply_tf a w =
        (case apply_tf (if length a = 3 then a @ quat_identity else a)
                       (if length w = 3 then w @ quat_identity else w) of
           Inl e \<Rightarrow> Inl e
         | Inr full \<Rightarrow> Inr (if length w = 3 then take 3 full else full))) \<and>
   (length a \<notin> {3, 7} \<or> length w \<notin> {3, 7} \<longrightarrow> isl (apply_tf a w))"
proof (intro conjI impI)
  assume h: "length a \<in> {3, 7} \<and> length w \<in> {3, 7}"
  define ap where "ap = (if length a = 3 then a @ quat_identity else a)"
  define wp where "wp = (if length w = 3 then w @ quat_identity else w)"
  have la: "length ap = 7" and lw: "length wp = 7"
    using h by (auto simp: quat_identity_def ap_def wp_def)
  obtain full where full: "apply_tf ap wp = Inr full" "length full = 7"
    using apply_tf_77 [OF la lw] by auto
  have e1: "apply_tf a w = apply_tf ap w"
    using apply_tf_pad_a [of a w] by (simp add: quat_identity_def ap_def)
  have e2: "apply_tf ap w = Inr (if length w = 3 then take 3 full else full)"
  proof (cases "length w = 3")
    case True
    then have "wp = w @ [1, 0, 0, 0]" by (simp add: wp_def quat_identity_def)
    then show ?thesis using apply_tf_pad_w [OF True la] full True by simp
  next
    case False
    then have "wp = w" by (simp add: wp_def)
    then show ?thesis using full False by simp
  qed
  show "apply_tf a w = (case apply_tf (if length a = 3 then a @ quat_identity else a)
                       (if length w = 3 then w @ quat_identity else w) of Inl e \<Rightarrow> Inl e
         | Inr full \<Rightarrow> Inr (if length w = 3 then take 3 full else full))"
    using e1 e2 full unfolding ap_def wp_def by simp
  show "\<exists>r. apply_tf a w = Inr r \<and> length r = (if length w = 3 then 3 else 7)"
    using e1 e2 full by simp
next
  assume "length a \<notin> {3, 7} \<or> length w \<notin> {3, 7}"
  then show "isl (apply_tf a w)"
    using apply_tf_bad_a [of a w] apply_tf_bad_w [of w a] by auto
qed

text \<open>A point in a rotated frame, a pose against a position-only reference, and an
  argument of two components.\<close>

theorem apply_tf_shapes_witness:
  "apply_tf [1, 2, 3] [0, 0, 0, 3/5, 0, 0, 4/5] = Inr [- 11 / 5, 2 / 5, 3, 3 / 5, 0, 0, 4 / 5]
   \<and> (\<exists>r. apply_tf [1, 2, 3, 1, 0, 0, 0] [4, 5, 6] = Inr r \<and> length r = 3)
   \<and> isl (apply_tf [1, 2] [4, 5, 6])"
  using apply_tf_shapes [of "[1, 2, 3]" "[0, 0, 0, 3/5, 0, 0, 4/5]"]
        apply_tf_shapes [of "[1, 2, 3, 1, 0, 0, 0]" "[4, 5, 6]"]
        apply_tf_shapes [of "[1, 2]" "[4, 5, 6]"]
  by (simp add: apply_tf_def quat_rot_vec_def quat_mul_def quat_conjugate_def np_broadcast2_def quat_identity_def)

text \<open>
  C6, as stated, fails: with a position-only \<open>a_to_b\<close> and a 7-vector \<open>world_to_a\<close> the
  result is a 7-vector, not a 3-vector.
\<close>

theorem apply_tf_position_only_counterexample:
  "apply_tf [1, 2, 3] [0, 0, 0, 1, 0, 0, 0] = Inr [1, 2, 3, 1, 0, 0, 0] \<and>
   length [1, 2, 3, 1, 0, 0, 0 :: real] = 7"
  by (simp add: apply_tf_def quat_rot_vec4 quat_mul4 np_broadcast2_def)

section \<open>Success and reward of the hand environment\<close>

lemma goal_distance_7:
  assumes "length a = 7" "length b = 7"
  shows "goal_distance a b ign =
           Inr (np_norm (map2 (-) (take 3 a) (take 3 b)),
                if ign then 0
                else 2 * arccos (np_clip (a ! 3 * b ! 3 + a ! 4 * b ! 4 + a ! 5 * b ! 5 + a ! 6 * b ! 6) (- 1) 1))"
proof -
  obtain a0 a1 a2 a3 a4 a5 a6 where a: "a = [a0, a1, a2, a3, a4, a5, a6]"
    using list_len7 [OF assms(1)] by auto
  obtain b0 b1 b2 b3 b4 b5 b6 where b: "b = [b0, b1, b2, b3, b4, b5, b6]"
    using list_len7 [OF assms(2)] by auto
  show ?thesis
    by (simp add: a b goal_distance_def np_broadcast2_def quat_mul4 quat_conjugate4)
qed



lemma np_norm3_x: "np_norm [x, 0, 0] = \<bar>x\<bar>"
  by (simp add: np_norm_def)

lemma np_norm3_0: "np_norm [0, 0, 0] = 0"
  by (simp add: np_norm_def)






lemma init_default:
  "MovingHandEnv_init (HandPickAndPlaceEnv_kwargs\<lparr>kw_success_on_grasp_only := g\<rparr>) None =
     Inr (hand_config.truncate (test_env\<lparr>success_on_grasp_only := g\<rparr>))"
  by (simp add: MovingHandEnv_init_def HandPickAndPlaceEnv_kwargs_def OBJECTS_def test_env_def
        hand_config.truncate_def)

lemma test_env_fields:
  "reward_type test_env = ''sparse''" "has_object test_env"
  "distance_threshold test_env = 5 / 100" "rotation_threshold test_env = 1 / 10"
  "\<not> ignore_target_rotation test_env" "\<not> success_on_grasp_only test_env"
  "\<not> randomize_initial_arm_pos test_env" "randomize_initial_object_pos test_env"
  "forearm_bounds test_env = ([65 / 100, 3 / 10, 42 / 100], [175 / 100, 12 / 10, 1])"
  "table_safe_bounds test_env = ([110 / 100, 43 / 100], [149 / 100, 105 / 100])"
  "grasp_state_reset_p test_env = 0" "sim test_env = 0"
  by (simp_all add: test_env_def)



text \<open>
  C2, as the code has it. In sparse mode \<open>MovingHandEnv.compute_reward\<close> returns the
  success score s, which is 0 or 1, times the weight if \<open>info\<close> carries weights, minus 1.
  Without weights the reward is s - 1, in {-1, 0}; with the weight w it is w - 1 on success
  and -1 on failure. \<open>YumiEnv.compute_reward\<close> returns the number of arms that succeeded
  minus the number of arms.
\<close>

theorem sparse_reward_values:
  "(reward_type self = ''sparse'' \<and> is_success self ag g = Inr s \<longrightarrow>
      (s = 0 \<or> s = 1) \<and>
      compute_reward self ag g None = Inr (s - 1) \<and>
      (d ''weights'' = None \<longrightarrow> compute_reward self ag g (Some d) = Inr (s - 1)) \<and>
      (d ''weights'' = Some w \<longrightarrow> compute_reward self ag g (Some d) = Inr (s * w - 1)) \<and>
      (s = 0 \<longrightarrow> compute_reward self ag g info = Inr (- 1))) \<and>
   (yumi_reward_type y = ''sparse'' \<and> \<not> yumi_has_object y \<and> length yag = length ydg \<and>
    yumi_is_success y (take 3 yag) (take 3 ydg) = Inr sl \<and>
    yumi_is_success y (drop 3 yag) (drop 3 ydg) = Inr sr \<longrightarrow>
      (sl = 0 \<or> sl = 1) \<and> (sr = 0 \<or> sr = 1) \<and>
      yumi_compute_reward y yag ydg yinfo =
        Inr ((if has_left_arm y then sl else 0) + (if has_right_arm y then sr else 0)
             - (if has_two_arms y then 2 else 1)))"
proof (intro conjI impI)
  assume h: "reward_type self = ''sparse'' \<and> is_success self ag g = Inr s"
  then show "s = 0 \<or> s = 1"
    by (auto simp: is_success_def Let_def split: sum.splits if_splits)
  show "compute_reward self ag g None = Inr (s - 1)"
    using h by (simp add: compute_reward_def)
  show "compute_reward self ag g (Some d) = Inr (s - 1)" if "d ''weights'' = None"
    using h that by (simp add: compute_reward_def)
  show "compute_reward self ag g (Some d) = Inr (s * w - 1)" if "d ''weights'' = Some w"
    using h that by (simp add: compute_reward_def)
  show "compute_reward self ag g info = Inr (- 1)" if "s = 0"
    using h that by (simp add: compute_reward_def split: option.splits)
next
  assume h: "yumi_reward_type y = ''sparse'' \<and> \<not> yumi_has_object y \<and> length yag = length ydg \<and>
    yumi_is_success y (take 3 yag) (take 3 ydg) = Inr sl \<and>
    yumi_is_success y (drop 3 yag) (drop 3 ydg) = Inr sr"
  then show "sl = 0 \<or> sl = 1" and "sr = 0 \<or> sr = 1"
    by (auto simp: yumi_is_success_def split: sum.splits if_splits)
  show "yumi_compute_reward y yag ydg yinfo =
        Inr ((if has_left_arm y then sl else 0) + (if has_right_arm y then sr else 0)
             - (if has_two_arms y then 2 else 1))"
    using h by (simp add: yumi_compute_reward_def)
qed

lemma is_success_at_goal:
  "is_success test_env [0, 0, 0, 1, 0, 0, 0] [0, 0, 0, 1, 0, 0, 0] = Inr 1"
  by (simp add: is_success_def goal_distance_7 np_norm3_0 np_clip_def test_env_fields)

lemma is_success_away:
  "is_success test_env [1, 0, 0, 1, 0, 0, 0] [0, 0, 0, 1, 0, 0, 0] = Inr 0"
  by (simp add: is_success_def goal_distance_7 np_norm3_x np_clip_def test_env_fields)

text \<open>
  C2, as stated, fails: on success with the weight 1/2 the reward of the hand environment
  is -1/2, and the two-arm Yumi environment returns -2 when both arms miss their goals.
\<close>

theorem sparse_reward_counterexample:
  "compute_reward test_env [0, 0, 0, 1, 0, 0, 0] [0, 0, 0, 1, 0, 0, 0]
       (Some [''weights'' \<mapsto> 1 / 2]) = Inr (- 1 / 2) \<and>
   yumi_compute_reward
       \<lparr>arm = ''both'', block_gripper = True, yumi_reward_type = ''sparse'',
        yumi_has_object = False, yumi_distance_threshold = 5 / 100\<rparr>
       [1, 0, 0, 1, 0, 0] [0, 0, 0, 0, 0, 0] None = Inr (- 2)"
  by (simp add: compute_reward_def is_success_at_goal test_env_fields yumi_compute_reward_def
        yumi_is_success_def np_broadcast2_def np_norm3_x has_left_arm_def has_right_arm_def
        has_two_arms_def)

text \<open>The pick-and-place environment at its goal without weights, with an empty \<open>info\<close>
  and with the weight 3, away from its goal with the weight 3, and the two-arm Yumi
  environment with one arm at its goal.\<close>

theorem sparse_reward_values_witness:
  "compute_reward test_env [0, 0, 0, 1, 0, 0, 0] [0, 0, 0, 1, 0, 0, 0] None = Inr 0 \<and>
   compute_reward test_env [0, 0, 0, 1, 0, 0, 0] [0, 0, 0, 1, 0, 0, 0] (Some Map.empty) = Inr 0 \<and>
   compute_reward test_env [0, 0, 0, 1, 0, 0, 0] [0, 0, 0, 1, 0, 0, 0]
       (Some [''weights'' \<mapsto> 3]) = Inr 2 \<and>
   compute_reward test_env [1, 0, 0, 1, 0, 0, 0] [0, 0, 0, 1, 0, 0, 0]
       (Some [''weights'' \<mapsto> 3]) = Inr (- 1) \<and>
   yumi_compute_reward
       \<lparr>arm = ''both'', block_gripper = True, yumi_reward_type = ''sparse'',
        yumi_has_object = False, yumi_distance_threshold = 5 / 100\<rparr>
       [0, 0, 0, 1, 0, 0] [0, 0, 0, 0, 0, 0] None = Inr (- 1)"
proof -
  define y where "y = \<lparr>arm = ''both'', block_gripper = True, yumi_reward_type = ''sparse'',
        yumi_has_object = False, yumi_distance_threshold = 5 / 100\<rparr>"
  have yl: "yumi_is_success y (take 3 [1, 0, 0, 1, 0, 0]) (take 3 [0, 0, 0, 0, 0, 0]) = Inr 0"
    by (simp add: yumi_is_success_def np_broadcast2_def np_norm3_x y_def)
  have yl1: "yumi_is_success y (take 3 [0, 0, 0, 1, 0, 0]) (take 3 [0, 0, 0, 0, 0, 0]) = Inr 1"
    by (simp add: yumi_is_success_def np_broadcast2_def np_norm3_0 y_def)
  have yr: "yumi_is_success y (drop 3 [0, 0, 0, 1, 0, 0]) (drop 3 [0, 0, 0, 0, 0, 0]) = Inr 0"
    by (simp add: yumi_is_success_def np_broadcast2_def np_norm3_x y_def)
  have yf: "yumi_reward_type y = ''sparse''" "\<not> yumi_has_object y" "has_left_arm y"
    "has_right_arm y" "has_two_arms y"
    by (simp_all add: y_def has_left_arm_def has_right_arm_def has_two_arms_def)
  have a: "compute_reward test_env [0, 0, 0, 1, 0, 0, 0] [0, 0, 0, 1, 0, 0, 0] None = Inr 0"
    and b: "compute_reward test_env [0, 0, 0, 1, 0, 0, 0] [0, 0, 0, 1, 0, 0, 0] (Some Map.empty) = Inr 0"
    and c: "compute_reward test_env [0, 0, 0, 1, 0, 0, 0] [0, 0, 0, 1, 0, 0, 0]
       (Some [''weights'' \<mapsto> 3]) = Inr 2"
    and e: "yumi_compute_reward y [0, 0, 0, 1, 0, 0] [0, 0, 0, 0, 0, 0] None = Inr (- 1)"
    using sparse_reward_values
            [of test_env "[0, 0, 0, 1, 0, 0, 0]" "[0, 0, 0, 1, 0, 0, 0]" 1 "Map.empty" 3
                None y "[0, 0, 0, 1, 0, 0]" "[0, 0, 0, 0, 0, 0]" 1 0 None]
          sparse_reward_values
            [of test_env "[0, 0, 0, 1, 0, 0, 0]" "[0, 0, 0, 1, 0, 0, 0]" 1 "[''weights'' \<mapsto> 3]" 3
                None y "[0, 0, 0, 1, 0, 0]" "[0, 0, 0, 0, 0, 0]" 1 0 None]
          is_success_at_goal test_env_fields(1) yl1 yr yf
    by simp_all
  have d: "compute_reward test_env [1, 0, 0, 1, 0, 0, 0] [0, 0, 0, 1, 0, 0, 0]
       (Some [''weights'' \<mapsto> 3]) = Inr (- 1)"
    using sparse_reward_values
            [of test_env "[1, 0, 0, 1, 0, 0, 0]" "[0, 0, 0, 1, 0, 0, 0]" 0 "Map.empty" 3
                "Some [''weights'' \<mapsto> 3]" y "[0, 0, 0, 1, 0, 0]" "[0, 0, 0, 0, 0, 0]" 1 0 None]
          is_success_away test_env_fields(1)
    by simp
  show ?thesis using a b c d e unfolding y_def by simp
qed

section \<open>What the methods of the hand environment leave unchanged\<close>

lemma set_action_cfg:
  "set_action ph self act = Inr self' \<Longrightarrow> hand_config.truncate self' = hand_config.truncate self"
  by (auto simp: set_action_def Let_def hand_config.truncate_def split: sum.splits if_splits)

lemma reset_attempt_cfg:
  "reset_attempt ph g self = Inr self' \<Longrightarrow> hand_config.truncate self' = hand_config.truncate self"
  by (auto simp: reset_attempt_def Let_def hand_config.truncate_def
           dest!: set_action_cfg
           split: sum.splits if_splits grasp_arg.splits prod.splits)

lemma reset_loop_cfg_aux:
  assumes "reset_loop ph g self = Some r"
  shows "\<forall>self'. r = Inr self' \<longrightarrow>
     hand_config.truncate self' = hand_config.truncate self \<and> reset_accepts ph g self'"
proof (rule reset_loop.raw_induct
         [where P = "\<lambda>ph g self r. \<forall>self'. r = Inr self' \<longrightarrow>
            hand_config.truncate self' = hand_config.truncate self \<and> reset_accepts ph g self'",
          OF _ assms])
  fix loop :: "'a hand_sim \<Rightarrow> bool \<Rightarrow> 'a hand_env \<Rightarrow> (py_error + 'a hand_env) option"
  fix ph g self r
  assume ih: "\<And>ph g self r. loop ph g self = Some r \<Longrightarrow>
            \<forall>self'. r = Inr self' \<longrightarrow>
              hand_config.truncate self' = hand_config.truncate self \<and> reset_accepts ph g self'"
  assume body: "(case reset_attempt ph g self of
            Inl e \<Rightarrow> Some (Inl e)
          | Inr self1 \<Rightarrow>
              if reset_accepts ph g self1 then Some (Inr self1) else loop ph g self1) = Some r"
  show "\<forall>self'. r = Inr self' \<longrightarrow>
          hand_config.truncate self' = hand_config.truncate self \<and> reset_accepts ph g self'"
  proof (cases "reset_attempt ph g self")
    case (Inl e)
    then show ?thesis using body by auto
  next
    case (Inr self1)
    note cfg1 = reset_attempt_cfg [OF Inr]
    show ?thesis
    proof (cases "reset_accepts ph g self1")
      case True
      then show ?thesis using body Inr cfg1 by auto
    next
      case False
      then have "loop ph g self1 = Some r" using body Inr by simp
      from ih [OF this] show ?thesis using cfg1 by simp
    qed
  qed
qed

lemma reset_loop_cfg:
  "reset_loop ph g self = Some (Inr self') \<Longrightarrow>
     hand_config.truncate self' = hand_config.truncate self \<and> reset_accepts ph g self'"
  using reset_loop_cfg_aux by blast

lemma is_success_cong:
  assumes "distance_threshold e1 = distance_threshold e2" "rotation_threshold e1 = rotation_threshold e2"
    "ignore_target_rotation e1 = ignore_target_rotation e2"
    "success_on_grasp_only e1 = success_on_grasp_only e2"
  shows "is_success e1 ag g = is_success e2 ag g"
  unfolding is_success_def assms by (rule refl)

lemma compute_reward_cong:
  assumes "reward_type e1 = reward_type e2"
    "distance_threshold e1 = distance_threshold e2" "rotation_threshold e1 = rotation_threshold e2"
    "ignore_target_rotation e1 = ignore_target_rotation e2"
    "success_on_grasp_only e1 = success_on_grasp_only e2"
  shows "compute_reward e1 ag g info = compute_reward e2 ag g info"
  using assms is_success_cong [OF assms(2-5)] by (simp add: compute_reward_def)

lemma truncate_fields:
  assumes "hand_config.truncate e1 = hand_config.truncate e2"
  shows "reward_type e1 = reward_type e2"
    "distance_threshold e1 = distance_threshold e2" "rotation_threshold e1 = rotation_threshold e2"
    "ignore_target_rotation e1 = ignore_target_rotation e2"
    "success_on_grasp_only e1 = success_on_grasp_only e2"
    "has_object e1 = has_object e2" "table_safe_bounds e1 = table_safe_bounds e2"
    "forearm_bounds e1 = forearm_bounds e2"
  using assms by (simp_all add: hand_config.truncate_def)

lemma yc_compute_reward_cong:
  assumes "yc_reward_type y1 = yc_reward_type y2" "yc_distance_threshold y1 = yc_distance_threshold y2"
  shows "yc_compute_reward y1 ag g info = yc_compute_reward y2 ag g info"
  unfolding yc_compute_reward_def yc_is_success_def assms by (rule refl)

text \<open>
  C4. \<open>compute_reward\<close> is a function of its arguments and of the configuration: two
  environment objects that agree on \<open>reward_type\<close>, the two thresholds,
  \<open>ignore_target_rotation\<close> and \<open>success_on_grasp_only\<close> return the same reward for
  the same arguments, whatever their simulator state, goal and \<open>relative_control\<close> are.
  In particular \<open>_set_action\<close>, the part of a step that this file defines, and
  \<open>_reset_sim\<close> leave the reward of every argument unchanged. The same holds for
  \<open>YumiConstrainedEnv.compute_reward\<close>, which reads \<open>reward_type\<close> and
  \<open>distance_threshold\<close> only.
\<close>

theorem compute_reward_pure:
  "(reward_type ea = reward_type eb \<and> distance_threshold ea = distance_threshold eb \<and>
    rotation_threshold ea = rotation_threshold eb \<and>
    ignore_target_rotation ea = ignore_target_rotation eb \<and>
    success_on_grasp_only ea = success_on_grasp_only eb \<longrightarrow>
      compute_reward ea ag g info = compute_reward eb ag g info) \<and>
   compute_reward (env\<lparr>sim := s', goal := g', relative_control := rc\<rparr>) ag g info =
     compute_reward env ag g info \<and>
   (set_action ph env act = Inr env_a \<longrightarrow>
      compute_reward env_a ag g info = compute_reward env ag g info) \<and>
   (reset_sim ph env = Some (Inr env_r) \<longrightarrow>
      compute_reward env_r ag g info = compute_reward env ag g info) \<and>
   (yc_reward_type ya = yc_reward_type yb \<and> yc_distance_threshold ya = yc_distance_threshold yb \<longrightarrow>
      yc_compute_reward ya ag g info = yc_compute_reward yb ag g info) \<and>
   yc_compute_reward (y\<lparr>sim_env := se\<rparr>) ag g info = yc_compute_reward y ag g info"
proof (intro conjI impI)
  assume "reward_type ea = reward_type eb \<and> distance_threshold ea = distance_threshold eb \<and>
    rotation_threshold ea = rotation_threshold eb \<and>
    ignore_target_rotation ea = ignore_target_rotation eb \<and>
    success_on_grasp_only ea = success_on_grasp_only eb"
  then show "compute_reward ea ag g info = compute_reward eb ag g info"
    by (intro compute_reward_cong) simp_all
next
  show "compute_reward (env\<lparr>sim := s', goal := g', relative_control := rc\<rparr>) ag g info =
     compute_reward env ag g info"
    by (rule compute_reward_cong) simp_all
next
  assume "set_action ph env act = Inr env_a"
  from truncate_fields [OF set_action_cfg [OF this]]
  show "compute_reward env_a ag g info = compute_reward env ag g info"
    by (intro compute_reward_cong)
next
  assume a: "reset_sim ph env = Some (Inr env_r)"
  obtain u s1 where u: "np_random_uniform ph 0 1 (sim env) = (u, s1)" by (cases "np_random_uniform ph 0 1 (sim env)")
  have "reset_loop ph (u < grasp_state_reset_p env) (env\<lparr>sim := s1\<rparr>) = Some (Inr env_r)"
    using a u by (simp add: reset_sim_def)
  from reset_loop_cfg [OF this]
  have "hand_config.truncate env_r = hand_config.truncate (env\<lparr>sim := s1\<rparr>)" by simp
  from truncate_fields [OF this]
  show "compute_reward env_r ag g info = compute_reward env ag g info"
    by (intro compute_reward_cong) simp_all
next
  assume "yc_reward_type ya = yc_reward_type yb \<and> yc_distance_threshold ya = yc_distance_threshold yb"
  then have "yc_reward_type ya = yc_reward_type yb"
    and "yc_distance_threshold ya = yc_distance_threshold yb" by simp_all
  then show "yc_compute_reward ya ag g info = yc_compute_reward yb ag g info"
    by (rule yc_compute_reward_cong)
next
  show "yc_compute_reward (y\<lparr>sim_env := se\<rparr>) ag g info = yc_compute_reward y ag g info"
    by (rule yc_compute_reward_cong) simp_all
qed

section \<open>The constructor of the hand environment\<close>

text \<open>
  C8. \<open>MovingHandEnv.__init__\<close> raises when \<open>ignore_rotation_ctrl\<close> is set and
  \<open>ignore_target_rotation\<close> is not, and when \<open>success_on_grasp_only\<close> is set while the
  reward type is not sparse or there is no object. The error is a \<open>ValueError\<close>, or the
  \<open>IOError\<close> of the grasp state file that is checked before. Whenever the constructor
  returns, none of these combinations holds of the flags it has stored.
\<close>

theorem init_rejects_invalid_flags:
  "(kw_ignore_rotation_ctrl kw \<and> \<not> kw_ignore_target_rotation kw \<longrightarrow>
      (\<exists>e. MovingHandEnv_init kw grasp_file = Inl e \<and> (e = IOError \<or> (\<exists>m. e = ValueError m)))) \<and>
   (kw_success_on_grasp_only kw \<and> (kw_reward_type kw \<noteq> ''sparse'' \<or> \<not> kw_has_object kw) \<longrightarrow>
      (\<exists>e. MovingHandEnv_init kw grasp_file = Inl e \<and> (e = IOError \<or> (\<exists>m. e = ValueError m)))) \<and>
   (MovingHandEnv_init kw grasp_file = Inr self \<longrightarrow>
      \<not> (ignore_rotation_ctrl self \<and> \<not> ignore_target_rotation self) \<and>
      \<not> (success_on_grasp_only self \<and> (reward_type self \<noteq> ''sparse'' \<or> \<not> has_object self)) \<and>
      ignore_rotation_ctrl self = kw_ignore_rotation_ctrl kw \<and>
      ignore_target_rotation self = kw_ignore_target_rotation kw \<and>
      success_on_grasp_only self = kw_success_on_grasp_only kw \<and>
      reward_type self = kw_reward_type kw \<and>
      has_object self = kw_has_object kw)"
proof (intro conjI impI)
  assume "kw_ignore_rotation_ctrl kw \<and> \<not> kw_ignore_target_rotation kw"
  then show "\<exists>e. MovingHandEnv_init kw grasp_file = Inl e \<and> (e = IOError \<or> (\<exists>m. e = ValueError m))"
    by (auto simp: MovingHandEnv_init_def split: grasp_arg.splits bool.splits option.splits)
next
  assume "kw_success_on_grasp_only kw \<and> (kw_reward_type kw \<noteq> ''sparse'' \<or> \<not> kw_has_object kw)"
  then show "\<exists>e. MovingHandEnv_init kw grasp_file = Inl e \<and> (e = IOError \<or> (\<exists>m. e = ValueError m))"
    by (auto simp: MovingHandEnv_init_def split: grasp_arg.splits bool.splits option.splits)
next
  assume a: "MovingHandEnv_init kw grasp_file = Inr self"
  have chk: "\<not> (kw_ignore_rotation_ctrl kw \<and> \<not> kw_ignore_target_rotation kw)"
    "\<not> (kw_success_on_grasp_only kw \<and> kw_reward_type kw \<noteq> ''sparse'')"
    "\<not> (kw_success_on_grasp_only kw \<and> \<not> kw_has_object kw)"
    using a by (auto simp: MovingHandEnv_init_def split: sum.splits if_splits)
  have flds: "ignore_rotation_ctrl self = kw_ignore_rotation_ctrl kw"
      "ignore_target_rotation self = kw_ignore_target_rotation kw"
      "success_on_grasp_only self = kw_success_on_grasp_only kw"
      "reward_type self = kw_reward_type kw"
      "has_object self = kw_has_object kw"
    using a by (auto simp: MovingHandEnv_init_def split: sum.splits if_splits)
  show "\<not> (ignore_rotation_ctrl self \<and> \<not> ignore_target_rotation self)"
    "\<not> (success_on_grasp_only self \<and> (reward_type self \<noteq> ''sparse'' \<or> \<not> has_object self))"
    using chk flds by auto
  show "ignore_rotation_ctrl self = kw_ignore_rotation_ctrl kw"
      "ignore_target_rotation self = kw_ignore_target_rotation kw"
      "success_on_grasp_only self = kw_success_on_grasp_only kw"
      "reward_type self = kw_reward_type kw"
      "has_object self = kw_has_object kw"
    using flds by simp_all
qed

text \<open>The default arguments are accepted; with \<open>ignore_rotation_ctrl\<close> set, or with
  \<open>success_on_grasp_only\<close> set and a dense reward, the constructor raises.\<close>

theorem init_rejects_invalid_flags_witness:
  "(\<exists>e. MovingHandEnv_init
          ((HandPickAndPlaceEnv_kwargs :: nat hand_kwargs)\<lparr>kw_ignore_rotation_ctrl := True\<rparr>) None
        = Inl e \<and> (e = IOError \<or> (\<exists>m. e = ValueError m))) \<and>
   (\<exists>e. MovingHandEnv_init
          ((HandPickAndPlaceEnv_kwargs :: nat hand_kwargs)
             \<lparr>kw_success_on_grasp_only := True, kw_reward_type := ''dense''\<rparr>) None
        = Inl e \<and> (e = IOError \<or> (\<exists>m. e = ValueError m))) \<and>
   MovingHandEnv_init (HandPickAndPlaceEnv_kwargs :: nat hand_kwargs) None =
     Inr (hand_config.truncate test_env) \<and>
   \<not> (ignore_rotation_ctrl test_env \<and> \<not> ignore_target_rotation test_env) \<and>
   \<not> (success_on_grasp_only test_env \<and> (reward_type test_env \<noteq> ''sparse'' \<or> \<not> has_object test_env))"
proof -
  have ok: "MovingHandEnv_init (HandPickAndPlaceEnv_kwargs :: nat hand_kwargs) None =
     Inr (hand_config.truncate test_env)"
    using init_default [of False] by (simp add: HandPickAndPlaceEnv_kwargs_def test_env_def)
  have e1: "\<exists>e. MovingHandEnv_init
          ((HandPickAndPlaceEnv_kwargs :: nat hand_kwargs)\<lparr>kw_ignore_rotation_ctrl := True\<rparr>) None
        = Inl e \<and> (e = IOError \<or> (\<exists>m. e = ValueError m))"
    using init_rejects_invalid_flags
            [of "(HandPickAndPlaceEnv_kwargs :: nat hand_kwargs)\<lparr>kw_ignore_rotation_ctrl := True\<rparr>"
                None "hand_config.truncate test_env", THEN conjunct1]
    by (simp add: HandPickAndPlaceEnv_kwargs_def)
  have e2: "\<exists>e. MovingHandEnv_init
          ((HandPickAndPlaceEnv_kwargs :: nat hand_kwargs)
             \<lparr>kw_success_on_grasp_only := True, kw_reward_type := ''dense''\<rparr>) None
        = Inl e \<and> (e = IOError \<or> (\<exists>m. e = ValueError m))"
    using init_rejects_invalid_flags
            [of "(HandPickAndPlaceEnv_kwargs :: nat hand_kwargs)
                   \<lparr>kw_success_on_grasp_only := True, kw_reward_type := ''dense''\<rparr>"
                None "hand_config.truncate test_env", THEN conjunct2, THEN conjunct1]
    by (simp add: HandPickAndPlaceEnv_kwargs_def)
  have acc: "\<not> (ignore_rotation_ctrl test_env \<and> \<not> ignore_target_rotation test_env) \<and>
   \<not> (success_on_grasp_only test_env \<and> (reward_type test_env \<noteq> ''sparse'' \<or> \<not> has_object test_env))"
  proof -
    have "\<not> (ignore_rotation_ctrl (hand_config.truncate test_env) \<and>
              \<not> ignore_target_rotation (hand_config.truncate test_env)) \<and>
          \<not> (success_on_grasp_only (hand_config.truncate test_env) \<and>
              (reward_type (hand_config.truncate test_env) \<noteq> ''sparse'' \<or>
               \<not> has_object (hand_config.truncate test_env)))"
      using init_rejects_invalid_flags
            [of "HandPickAndPlaceEnv_kwargs :: nat hand_kwargs"
                None "hand_config.truncate test_env", THEN conjunct2, THEN conjunct2] ok
      by blast
    then show ?thesis by (simp add: hand_config.truncate_def)
  qed
  show ?thesis using ok e1 e2 acc by blast
qed

section \<open>The reset loop\<close>

lemma uniform_array_length:
  "length (fst (uniform_array ph los his s)) = min (length los) (length his)"
  by (induction ph los his s rule: uniform_array.induct) (auto split: prod.splits)

lemma np_clip_array_3:
  assumes "length a = 3" "length lo = 3" "length hi = 3"
  shows "\<exists>c. np_clip_array a lo hi = Inr c"
  using assms by (simp add: np_clip_array_def np_broadcast2_def)

lemma set_arm_pose_ok:
  assumes "length pose = 7" "length (fst (forearm_bounds self)) = 3"
    "length (snd (forearm_bounds self)) = 3"
  shows "\<exists>s'. set_arm_pose ph self pose s = Inr s'"
proof -
  obtain c where "np_clip_array (take 3 pose) (fst (forearm_bounds self)) (snd (forearm_bounds self)) = Inr c"
    using np_clip_array_3 [of "take 3 pose"] assms by auto
  then show ?thesis using assms(1) by (simp add: set_arm_pose_def Let_def)
qed

lemma reset_attempt_ok:
  assumes "length (initial_arm_mocap_pose ph) = 7" "length (fst (forearm_bounds self)) = 3"
    "length (snd (forearm_bounds self)) = 3"
  shows "\<exists>self'. reset_attempt ph False self = Inr self'"
proof -
  define self1 where "self1 = self\<lparr>sim := sim_set_state ph (initial_state ph) (sim self)\<rparr>"
  define pose0 where "pose0 = initial_arm_mocap_pose ph"
  define drawn where "drawn = (if randomize_initial_arm_pos self1 then
                   let (noise, t) =
                         uniform_array ph [- (2 / 10), - (2 / 10)] [2 / 10, 2 / 10] (sim self1)
                   in (map2 (+) (take 2 pose0) noise @ drop 2 pose0, t)
                 else (pose0, sim self1))"
  have len: "length (fst drawn) = 7"
    using assms(1) uniform_array_length [of ph "[- (2 / 10), - (2 / 10)]" "[2 / 10, 2 / 10]" "sim self1"]
    by (auto simp: drawn_def pose0_def split: prod.splits)
  have b: "length (fst (forearm_bounds self1)) = 3" "length (snd (forearm_bounds self1)) = 3"
    using assms by (simp_all add: self1_def)
  obtain s2 where s2: "set_arm_pose ph self1 (fst drawn) (snd drawn) = Inr s2"
    using set_arm_pose_ok [OF len b] by blast
  show ?thesis
    using s2 unfolding reset_attempt_def drawn_def self1_def pose0_def Let_def split_beta
    by (simp del: uniform_array.simps)
qed

lemma reset_loop_no_error_aux:
  assumes "reset_loop ph g self = Some r"
  shows "g = False \<and> length (initial_arm_mocap_pose ph) = 7 \<and>
         length (fst (forearm_bounds self)) = 3 \<and> length (snd (forearm_bounds self)) = 3
         \<longrightarrow> (\<exists>self'. r = Inr self')"
proof (rule reset_loop.raw_induct
         [where P = "\<lambda>ph g self r. g = False \<and> length (initial_arm_mocap_pose ph) = 7 \<and>
            length (fst (forearm_bounds self)) = 3 \<and> length (snd (forearm_bounds self)) = 3
            \<longrightarrow> (\<exists>self'. r = Inr self')",
          OF _ assms])
  fix loop :: "'a hand_sim \<Rightarrow> bool \<Rightarrow> 'a hand_env \<Rightarrow> (py_error + 'a hand_env) option"
  fix ph g self r
  assume ih: "\<And>ph g self r. loop ph g self = Some r \<Longrightarrow>
            g = False \<and> length (initial_arm_mocap_pose ph) = 7 \<and>
            length (fst (forearm_bounds self)) = 3 \<and> length (snd (forearm_bounds self)) = 3
            \<longrightarrow> (\<exists>self'. r = Inr self')"
  assume body: "(case reset_attempt ph g self of
            Inl e \<Rightarrow> Some (Inl e)
          | Inr self1 \<Rightarrow>
              if reset_accepts ph g self1 then Some (Inr self1) else loop ph g self1) = Some r"
  show "g = False \<and> length (initial_arm_mocap_pose ph) = 7 \<and>
         length (fst (forearm_bounds self)) = 3 \<and> length (snd (forearm_bounds self)) = 3
         \<longrightarrow> (\<exists>self'. r = Inr self')"
  proof
    assume h: "g = False \<and> length (initial_arm_mocap_pose ph) = 7 \<and>
         length (fst (forearm_bounds self)) = 3 \<and> length (snd (forearm_bounds self)) = 3"
    then obtain self1 where a: "reset_attempt ph g self = Inr self1"
      using reset_attempt_ok [of ph self] by auto
    have fb: "forearm_bounds self1 = forearm_bounds self"
      using truncate_fields(8) [OF reset_attempt_cfg [OF a]] .
    show "\<exists>self'. r = Inr self'"
    proof (cases "reset_accepts ph g self1")
      case True
      then show ?thesis using body a by auto
    next
      case False
      then have "loop ph g self1 = Some r" using body a by simp
      from ih [OF this] show ?thesis using h fb by simp
    qed
  qed
qed

lemma reset_loop_progress:
  "reset_attempts ph g (Suc n) self = Inr self' \<Longrightarrow> reset_accepts ph g self' \<Longrightarrow>
   (\<forall>k<n. \<forall>e. reset_attempts ph g (Suc k) self = Inr e \<longrightarrow> \<not> reset_accepts ph g e) \<Longrightarrow>
   reset_loop ph g self = Some (Inr self')"
proof (induction n arbitrary: self)
  case 0
  then have "reset_attempt ph g self = Inr self'"
    by (simp split: sum.splits)
  then show ?case using 0(2) by (subst reset_loop.simps) simp
next
  case (Suc n)
  from Suc.prems(1) obtain s1 where s1: "reset_attempt ph g self = Inr s1"
    and rest: "reset_attempts ph g (Suc n) s1 = Inr self'"
    by (cases "reset_attempt ph g self") simp_all
  have "reset_attempts ph g (Suc 0) self = Inr s1" using s1 by simp
  then have rej: "\<not> reset_accepts ph g s1" using Suc.prems(3) by blast
  have later: "\<forall>k<n. \<forall>e. reset_attempts ph g (Suc k) s1 = Inr e \<longrightarrow> \<not> reset_accepts ph g e"
  proof (intro allI impI)
    fix k e assume "k < n" "reset_attempts ph g (Suc k) s1 = Inr e"
    then have "Suc k < Suc n" "reset_attempts ph g (Suc (Suc k)) self = Inr e"
      using s1 by simp_all
    then show "\<not> reset_accepts ph g e" using Suc.prems(3) by blast
  qed
  have "reset_loop ph g s1 = Some (Inr self')"
    by (rule Suc.IH [OF rest Suc.prems(2) later])
  then show ?case using s1 rej by (subst reset_loop.simps) simp
qed

lemma check_range_2:
  "check_range [x, y] [xlo, ylo] [xhi, yhi] True \<longleftrightarrow> xlo \<le> x \<and> x \<le> xhi \<and> ylo \<le> y \<and> y \<le> yhi"
  by (auto simp: check_range_def)

lemma reset_accepts_object:
  assumes "reset_accepts ph False self" "has_object self"
  shows "np_norm (sim_get_joint_qvel ph ''object:joint'' (sim self)) < 8 / 10"
    and "check_range (take 2 (take 3 (get_object_pose ph (sim self))))
           (fst (table_safe_bounds self)) (snd (table_safe_bounds self)) True"
  using assms by (simp_all add: reset_accepts_def Let_def)

text \<open>
  C7. Take an environment with an object, a draw that does not select the grasp state, an
  initial arm pose of 7 components and forearm bounds of 3 components. Whenever
  \<open>_reset_sim\<close> returns, it returns no error, and in the state it leaves the norm of the
  object's joint velocity is below 0.8 and the planar position of the object is inside
  the table-safe bounds. A sample that fails the test is retried: if the pass number n + 1
  through the loop body is the first whose state passes the test, \<open>_reset_sim\<close> returns
  that state.
\<close>

theorem reset_sim_returns_valid_state:
  "has_object self \<and> \<not> grasp_state_reset_p self > fst (np_random_uniform ph 0 1 (sim self)) \<and>
   length (initial_arm_mocap_pose ph) = 7 \<and>
   length (fst (forearm_bounds self)) = 3 \<and> length (snd (forearm_bounds self)) = 3 \<longrightarrow>
     (reset_sim ph self = Some r \<longrightarrow>
        (\<exists>self'. r = Inr self' \<and>
           np_norm (sim_get_joint_qvel ph ''object:joint'' (sim self')) < 8 / 10 \<and>
           check_range (take 2 (take 3 (get_object_pose ph (sim self'))))
             (fst (table_safe_bounds self)) (snd (table_safe_bounds self)) True \<and>
           (\<forall>xlo ylo xhi yhi x y rest.
              table_safe_bounds self = ([xlo, ylo], [xhi, yhi]) \<and>
              get_object_pose ph (sim self') = x # y # rest \<longrightarrow>
              xlo \<le> x \<and> x \<le> xhi \<and> ylo \<le> y \<and> y \<le> yhi))) \<and>
     (reset_attempts ph False (Suc n) (self\<lparr>sim := snd (np_random_uniform ph 0 1 (sim self))\<rparr>)
        = Inr self1 \<and>
      reset_accepts ph False self1 \<and>
      (\<forall>k<n. \<forall>e.
         reset_attempts ph False (Suc k) (self\<lparr>sim := snd (np_random_uniform ph 0 1 (sim self))\<rparr>)
           = Inr e \<longrightarrow> \<not> reset_accepts ph False e) \<longrightarrow>
      reset_sim ph self = Some (Inr self1))"
proof (intro impI conjI)
  assume h: "has_object self \<and> \<not> grasp_state_reset_p self > fst (np_random_uniform ph 0 1 (sim self)) \<and>
   length (initial_arm_mocap_pose ph) = 7 \<and>
   length (fst (forearm_bounds self)) = 3 \<and> length (snd (forearm_bounds self)) = 3"
  define start where "start = self\<lparr>sim := snd (np_random_uniform ph 0 1 (sim self))\<rparr>"
  have rs: "reset_sim ph self = reset_loop ph False start"
    using h by (simp add: reset_sim_def start_def split_beta)
  {
    assume "reset_sim ph self = Some r"
    then have loop: "reset_loop ph False start = Some r" using rs by simp
    then obtain self' where r: "r = Inr self'"
      using reset_loop_no_error_aux [OF loop] h by (auto simp: start_def)
    have cfg: "hand_config.truncate self' = hand_config.truncate start"
      and acc: "reset_accepts ph False self'"
      using reset_loop_cfg [of ph False start self'] loop r by simp_all
    have ho: "has_object self'" and tb: "table_safe_bounds self' = table_safe_bounds self"
      using truncate_fields(6,7) [OF cfg] h by (simp_all add: start_def)
    note v = reset_accepts_object [OF acc ho]
    have cr: "check_range (take 2 (take 3 (get_object_pose ph (sim self'))))
             (fst (table_safe_bounds self)) (snd (table_safe_bounds self)) True"
      using v(2) tb by simp
    have "\<forall>xlo ylo xhi yhi x y rest.
              table_safe_bounds self = ([xlo, ylo], [xhi, yhi]) \<and>
              get_object_pose ph (sim self') = x # y # rest \<longrightarrow>
              xlo \<le> x \<and> x \<le> xhi \<and> ylo \<le> y \<and> y \<le> yhi"
      using cr by (auto simp: check_range_2)
    then show "\<exists>self'. r = Inr self' \<and>
           np_norm (sim_get_joint_qvel ph ''object:joint'' (sim self')) < 8 / 10 \<and>
           check_range (take 2 (take 3 (get_object_pose ph (sim self'))))
             (fst (table_safe_bounds self)) (snd (table_safe_bounds self)) True \<and>
           (\<forall>xlo ylo xhi yhi x y rest.
              table_safe_bounds self = ([xlo, ylo], [xhi, yhi]) \<and>
              get_object_pose ph (sim self') = x # y # rest \<longrightarrow>
              xlo \<le> x \<and> x \<le> xhi \<and> ylo \<le> y \<and> y \<le> yhi)"
      using r v(1) cr by blast
  }
  {
    assume "reset_attempts ph False (Suc n) (self\<lparr>sim := snd (np_random_uniform ph 0 1 (sim self))\<rparr>)
        = Inr self1 \<and>
      reset_accepts ph False self1 \<and>
      (\<forall>k<n. \<forall>e.
         reset_attempts ph False (Suc k) (self\<lparr>sim := snd (np_random_uniform ph 0 1 (sim self))\<rparr>)
           = Inr e \<longrightarrow> \<not> reset_accepts ph False e)"
    then show "reset_sim ph self = Some (Inr self1)"
      using reset_loop_progress [of ph False n start self1] rs by (simp add: start_def)
  }
qed

subsection \<open>The loop on the test simulator\<close>

lemma test_reset_attempt:
  "reset_attempt test_sim False (test_env\<lparr>sim := k\<rparr>) = Inr (test_env\<lparr>sim := Suc k\<rparr>)"
  by (simp add: reset_attempt_def test_sim_def test_env_def set_arm_pose_def np_clip_array_def
        np_broadcast2_def Let_def eval_nat_numeral)

lemma test_reset_accepts:
  "reset_accepts test_sim False (test_env\<lparr>sim := k\<rparr>) \<longleftrightarrow> 3 \<le> k"
  by (simp add: reset_accepts_def test_sim_def test_env_def get_object_pose_def get_body_pose_def
        np_norm_def check_range_def Let_def)

lemma test_reset_attempts:
  "reset_attempts test_sim False n (test_env\<lparr>sim := k\<rparr>) = Inr (test_env\<lparr>sim := n + k\<rparr>)"
  by (induction n arbitrary: k) (simp_all add: test_reset_attempt)

lemma test_env_sim0: "test_env\<lparr>sim := 0\<rparr> = test_env"
  by (simp add: test_env_def)

lemma test_uniform: "np_random_uniform test_sim lo hi s = ((lo + hi) / 2, s)"
  by (simp add: test_sim_def)

lemma test_reset_sim:
  "reset_sim test_sim test_env = Some (Inr (test_env\<lparr>sim := 3\<rparr>))"
proof -
  have start: "reset_sim test_sim test_env = reset_loop test_sim False test_env"
    by (simp add: reset_sim_def test_uniform test_env_fields test_env_sim0 [unfolded test_env_fields])
  have "reset_loop test_sim False (test_env\<lparr>sim := 0\<rparr>) = Some (Inr (test_env\<lparr>sim := 3\<rparr>))"
  proof (rule reset_loop_progress [where n = 2])
    show "reset_attempts test_sim False (Suc 2) (test_env\<lparr>sim := 0\<rparr>) = Inr (test_env\<lparr>sim := 3\<rparr>)"
      by (simp only: test_reset_attempts) simp
    show "reset_accepts test_sim False (test_env\<lparr>sim := 3\<rparr>)"
      by (simp add: test_reset_accepts)
    show "\<forall>k<2. \<forall>e. reset_attempts test_sim False (Suc k) (test_env\<lparr>sim := 0\<rparr>) = Inr e \<longrightarrow>
            \<not> reset_accepts test_sim False e"
      by (auto simp only: test_reset_attempts test_reset_accepts sum.inject)
  qed
  then show ?thesis using start by (simp add: test_env_sim0)
qed

text \<open>On the test simulator the loop rejects two samples and returns the third.\<close>

theorem reset_sim_returns_valid_state_witness:
  "reset_sim test_sim test_env = Some (Inr (test_env\<lparr>sim := 3\<rparr>)) \<and>
   np_norm (sim_get_joint_qvel test_sim ''object:joint'' 3) < 8 / 10 \<and>
   check_range (take 2 (take 3 (get_object_pose test_sim 3)))
     [110 / 100, 43 / 100] [149 / 100, 105 / 100] True"
proof -
  have hyp: "has_object test_env \<and>
     \<not> grasp_state_reset_p test_env > fst (np_random_uniform test_sim 0 1 (sim test_env)) \<and>
     length (initial_arm_mocap_pose test_sim) = 7 \<and>
     length (fst (forearm_bounds test_env)) = 3 \<and> length (snd (forearm_bounds test_env)) = 3"
    by (simp add: test_env_fields test_uniform) (simp add: test_sim_def)
  have start: "test_env\<lparr>sim := snd (np_random_uniform test_sim 0 1 (sim test_env))\<rparr> = test_env"
    by (simp add: test_uniform test_env_fields test_env_sim0 [unfolded test_env_fields])
  have prog: "reset_attempts test_sim False (Suc 2) test_env = Inr (test_env\<lparr>sim := 3\<rparr>) \<and>
      reset_accepts test_sim False (test_env\<lparr>sim := 3\<rparr>) \<and>
      (\<forall>k<2. \<forall>e. reset_attempts test_sim False (Suc k) test_env = Inr e \<longrightarrow>
         \<not> reset_accepts test_sim False e)"
  proof -
    have att: "reset_attempts test_sim False n test_env = Inr (test_env\<lparr>sim := n\<rparr>)" for n
      using test_reset_attempts [of n 0] by (simp add: test_env_sim0)
    have "Suc 2 = 3" by simp
    then have "reset_attempts test_sim False (Suc 2) test_env = Inr (test_env\<lparr>sim := 3\<rparr>)"
      using att [of "Suc 2"] by (simp only:)
    moreover have "reset_accepts test_sim False (test_env\<lparr>sim := 3\<rparr>)"
      by (simp only: test_reset_accepts)
    moreover have "\<forall>k<2. \<forall>e. reset_attempts test_sim False (Suc k) test_env = Inr e \<longrightarrow>
         \<not> reset_accepts test_sim False e"
      by (auto simp only: att test_reset_accepts sum.inject)
    ultimately show ?thesis by blast
  qed
  note inst = reset_sim_returns_valid_state
                [of test_env test_sim "Inr (test_env\<lparr>sim := 3\<rparr>)" 2 "test_env\<lparr>sim := 3\<rparr>",
                 unfolded start, rule_format, OF hyp]
  have ret: "reset_sim test_sim test_env = Some (Inr (test_env\<lparr>sim := 3\<rparr>))"
    using inst [THEN conjunct2] prog by blast
  have "\<exists>self'. Inr (test_env\<lparr>sim := 3\<rparr>) = Inr self' \<and>
           np_norm (sim_get_joint_qvel test_sim ''object:joint'' (sim self')) < 8 / 10 \<and>
           check_range (take 2 (take 3 (get_object_pose test_sim (sim self'))))
             (fst (table_safe_bounds test_env)) (snd (table_safe_bounds test_env)) True \<and>
           (\<forall>xlo ylo xhi yhi x y rest.
              table_safe_bounds test_env = ([xlo, ylo], [xhi, yhi]) \<and>
              get_object_pose test_sim (sim self') = x # y # rest \<longrightarrow>
              xlo \<le> x \<and> x \<le> xhi \<and> ylo \<le> y \<and> y \<le> yhi)"
    using inst [THEN conjunct1] ret by blast
  then have "np_norm (sim_get_joint_qvel test_sim ''object:joint'' 3) < 8 / 10 \<and>
   check_range (take 2 (take 3 (get_object_pose test_sim 3)))
     [110 / 100, 43 / 100] [149 / 100, 105 / 100] True"
    by (auto simp: test_env_fields)
  then show ?thesis using ret by simp
qed

lemma test_set_action:
  "set_action test_sim test_env (replicate 27 0) = Inr test_env"
  by (simp add: set_action_def set_arm_pose_def np_clip_array_def np_broadcast2_def Let_def
        test_sim_def test_env_def eval_nat_numeral)

text \<open>The reward of the test environment before and after a reset, and after its
  mutable attributes are overwritten; the reward of two constrained Yumi environments
  that differ in their simulation only.\<close>

theorem compute_reward_pure_witness:
  "compute_reward test_env [0, 0, 0, 1, 0, 0, 0] [0, 0, 0, 1, 0, 0, 0] None =
     compute_reward (test_env\<lparr>sim := 3, goal := [], relative_control := True\<rparr>)
       [0, 0, 0, 1, 0, 0, 0] [0, 0, 0, 1, 0, 0, 0] None \<and>
   set_action test_sim test_env (replicate 27 0) = Inr test_env \<and>
   reset_sim test_sim test_env = Some (Inr (test_env\<lparr>sim := 3\<rparr>)) \<and>
   compute_reward (test_env\<lparr>sim := 3\<rparr>) [0, 0, 0, 1, 0, 0, 0] [0, 0, 0, 1, 0, 0, 0] None =
     compute_reward test_env [0, 0, 0, 1, 0, 0, 0] [0, 0, 0, 1, 0, 0, 0] None \<and>
   yc_compute_reward
       \<lparr>yc_reward_type = ''sparse'', yc_distance_threshold = 5 / 100,
        rotation_ctrl_enabled = False, fingers_ctrl_enabled = False, sim_env = 0 :: nat\<rparr>
       [0, 0, 0] [0, 0, 0] None =
     yc_compute_reward
       \<lparr>yc_reward_type = ''sparse'', yc_distance_threshold = 5 / 100,
        rotation_ctrl_enabled = False, fingers_ctrl_enabled = False, sim_env = 7 :: nat\<rparr>
       [0, 0, 0] [0, 0, 0] None"
proof -
  define ya where "ya = \<lparr>yc_reward_type = ''sparse'', yc_distance_threshold = 5 / 100,
        rotation_ctrl_enabled = False, fingers_ctrl_enabled = False, sim_env = 0 :: nat\<rparr>"
  define yb where "yb = \<lparr>yc_reward_type = ''sparse'', yc_distance_threshold = 5 / 100,
        rotation_ctrl_enabled = False, fingers_ctrl_enabled = False, sim_env = 7 :: nat\<rparr>"
  define eb where "eb = test_env\<lparr>sim := 3, goal := [], relative_control := True\<rparr>"
  have cfg: "reward_type test_env = reward_type eb \<and>
    distance_threshold test_env = distance_threshold eb \<and>
    rotation_threshold test_env = rotation_threshold eb \<and>
    ignore_target_rotation test_env = ignore_target_rotation eb \<and>
    success_on_grasp_only test_env = success_on_grasp_only eb"
    by (simp add: eb_def)
  have ycfg: "yc_reward_type ya = yc_reward_type yb \<and>
    yc_distance_threshold ya = yc_distance_threshold yb"
    by (simp add: ya_def yb_def)
  note inst = compute_reward_pure
     [where ea = test_env and eb = eb and env = test_env and ph = test_sim
        and act = "replicate 27 0" and env_a = test_env and env_r = "test_env\<lparr>sim := 3\<rparr>"
        and ya = ya and yb = yb and ag = "[0, 0, 0, 1, 0, 0, 0]" and g = "[0, 0, 0, 1, 0, 0, 0]"
        and info = None]
  have a: "compute_reward test_env [0, 0, 0, 1, 0, 0, 0] [0, 0, 0, 1, 0, 0, 0] None =
     compute_reward eb [0, 0, 0, 1, 0, 0, 0] [0, 0, 0, 1, 0, 0, 0] None"
    using inst [THEN conjunct1] cfg by blast
  have b: "compute_reward (test_env\<lparr>sim := 3\<rparr>) [0, 0, 0, 1, 0, 0, 0] [0, 0, 0, 1, 0, 0, 0] None =
     compute_reward test_env [0, 0, 0, 1, 0, 0, 0] [0, 0, 0, 1, 0, 0, 0] None"
    using inst [THEN conjunct2, THEN conjunct2, THEN conjunct2, THEN conjunct1] test_reset_sim
    by blast
  have c: "yc_compute_reward ya [0, 0, 0, 1, 0, 0, 0] [0, 0, 0, 1, 0, 0, 0] None =
     yc_compute_reward yb [0, 0, 0, 1, 0, 0, 0] [0, 0, 0, 1, 0, 0, 0] None"
    using inst [THEN conjunct2, THEN conjunct2, THEN conjunct2, THEN conjunct2, THEN conjunct1] ycfg
    by blast
  have c': "yc_compute_reward ya [0, 0, 0] [0, 0, 0] None = yc_compute_reward yb [0, 0, 0] [0, 0, 0] None"
    using compute_reward_pure [where ya = ya and yb = yb and ag = "[0, 0, 0]" and g = "[0, 0, 0]"
        and info = None, THEN conjunct2, THEN conjunct2, THEN conjunct2, THEN conjunct2, THEN conjunct1]
      ycfg by blast
  show ?thesis
    using a b c' test_set_action test_reset_sim unfolding eb_def ya_def yb_def by simp
qed

section \<open>The step of the constrained Yumi environment\<close>

lemma map2_replicate_right:
  "length xs = n \<Longrightarrow> map2 f xs (replicate n c) = map (\<lambda>x. f x c) xs"
  by (induction xs arbitrary: n) auto

lemma np_clip_array_same_length:
  assumes "length a = n"
  shows "np_clip_array a (replicate n lo) (replicate n hi) = Inr (map (\<lambda>x. np_clip x lo hi) a)"
  using assms
  by (simp add: np_clip_array_def np_broadcast2_def map2_replicate_right np_clip_def)

lemma np_clip_array_broadcast:
  assumes "length a = 1" "n \<noteq> 1"
  shows "np_clip_array a (replicate n lo) (replicate n hi) = Inr (replicate n (np_clip (hd a) lo hi))"
  using assms
  by (simp add: np_clip_array_def np_broadcast2_def map2_replicate_right np_clip_def
        map_replicate_const)

lemma np_clip_array_fails:
  assumes "length a \<noteq> n" "length a \<noteq> 1" "n \<noteq> 1"
  shows "isl (np_clip_array a (replicate n lo) (replicate n hi))"
  using assms by (simp add: np_clip_array_def np_broadcast2_def)

lemma np_clip_bounds: "lo \<le> hi \<Longrightarrow> lo \<le> np_clip x lo hi \<and> np_clip x lo hi \<le> hi"
  by (auto simp: np_clip_def)

lemma np_clip_inside: "lo \<le> x \<Longrightarrow> x \<le> hi \<Longrightarrow> np_clip x lo hi = x"
  by (auto simp: np_clip_def)

lemma np_clip_array_result:
  assumes "np_clip_array a (replicate n (- 1)) (replicate n 1) = Inr c" "n \<noteq> 1"
  shows "length c = n \<and> (\<forall>x\<in>set c. - 1 \<le> x \<and> x \<le> 1)"
proof -
  consider "length a = n" | "length a \<noteq> n" "length a = 1" | "length a \<noteq> n" "length a \<noteq> 1"
    by blast
  then show ?thesis
  proof cases
    case 1
    then show ?thesis
      using assms(1) np_clip_bounds [of "- 1" 1]
      by (auto simp: np_clip_array_same_length)
  next
    case 2
    then show ?thesis
      using assms np_clip_bounds [of "- 1" 1 "hd a"]
      by (auto simp: np_clip_array_broadcast)
  next
    case 3
    then show ?thesis
      using assms np_clip_array_fails [of a n "- 1" 1] by auto
  qed
qed

lemma np_clip_array_idem:
  assumes "length c = n" "\<forall>x\<in>set c. - 1 \<le> x \<and> x \<le> 1"
  shows "np_clip_array c (replicate n (- 1)) (replicate n 1) = Inr c"
proof -
  have "map (\<lambda>x. np_clip x (- 1) 1) c = c"
    using assms(2) by (induction c) (auto simp: np_clip_inside)
  then show ?thesis using assms(1) by (simp add: np_clip_array_same_length)
qed

lemma n_actions_ge4: "4 \<le> n_actions self"
  by (simp add: n_actions_def)

text \<open>
  C10. \<open>YumiConstrainedEnv.step\<close> clips the action to the action space before it
  decodes it: the commands computed for an action are those computed for the clipped
  action, every component of the clipped action lies between -1 and 1, and clipping it
  again changes nothing. For an action of the length of the action space the clipping is
  componentwise.
\<close>

theorem step_clips_action:
  "step_commands self curr_grasp_center_pose action =
     (case np_clip_array action (action_space_low self) (action_space_high self) of
        Inl e \<Rightarrow> Inl e
      | Inr clipped \<Rightarrow> step_commands self curr_grasp_center_pose clipped) \<and>
   (np_clip_array action (action_space_low self) (action_space_high self) = Inr clipped \<longrightarrow>
      length clipped = n_actions self \<and> (\<forall>x\<in>set clipped. - 1 \<le> x \<and> x \<le> 1) \<and>
      np_clip_array clipped (action_space_low self) (action_space_high self) = Inr clipped) \<and>
   (length action = n_actions self \<longrightarrow>
      np_clip_array action (action_space_low self) (action_space_high self) =
        Inr (map (\<lambda>x. np_clip x (- 1) 1) action))"
proof (intro conjI impI)
  have n1: "n_actions self \<noteq> 1" using n_actions_ge4 [of self] by simp
  have res: "length c = n_actions self \<and> (\<forall>x\<in>set c. - 1 \<le> x \<and> x \<le> 1) \<and>
      np_clip_array c (action_space_low self) (action_space_high self) = Inr c"
    if "np_clip_array action (action_space_low self) (action_space_high self) = Inr c" for c
  proof -
    have r: "length c = n_actions self \<and> (\<forall>x\<in>set c. - 1 \<le> x \<and> x \<le> 1)"
      using np_clip_array_result [of action "n_actions self" c] that n1
      by (simp add: action_space_low_def action_space_high_def)
    then show ?thesis
      using np_clip_array_idem [of c "n_actions self"]
      by (simp add: action_space_low_def action_space_high_def)
  qed
  show "step_commands self curr_grasp_center_pose action =
     (case np_clip_array action (action_space_low self) (action_space_high self) of
        Inl e \<Rightarrow> Inl e
      | Inr clipped \<Rightarrow> step_commands self curr_grasp_center_pose clipped)"
  proof (cases "np_clip_array action (action_space_low self) (action_space_high self)")
    case (Inl e)
    then show ?thesis by (simp add: step_commands_def)
  next
    case (Inr c)
    have again: "np_clip_array c (action_space_low self) (action_space_high self) = Inr c"
      using res [OF Inr] by simp
    show ?thesis
      unfolding step_commands_def [of self curr_grasp_center_pose action]
        step_commands_def [of self curr_grasp_center_pose c] Inr again sum.case
      by (rule refl)
  qed
  show "length clipped = n_actions self"
    "\<forall>x\<in>set clipped. - 1 \<le> x \<and> x \<le> 1"
    "np_clip_array clipped (action_space_low self) (action_space_high self) = Inr clipped"
    if "np_clip_array action (action_space_low self) (action_space_high self) = Inr clipped"
    using res [OF that] by simp_all
  show "np_clip_array action (action_space_low self) (action_space_high self) =
        Inr (map (\<lambda>x. np_clip x (- 1) 1) action)"
    if "length action = n_actions self"
    using that by (simp add: action_space_low_def action_space_high_def np_clip_array_same_length)
qed

text \<open>The action (5, -3, 1/2, 2) is clipped to (1, -1, 1/2, 1) and yields the same
  commands.\<close>

theorem step_clips_action_witness:
  "np_clip_array [5, - 3, 1 / 2, 2]
     (action_space_low \<lparr>yc_reward_type = ''dense'', yc_distance_threshold = 5 / 100,
        rotation_ctrl_enabled = False, fingers_ctrl_enabled = False, sim_env = ()\<rparr>)
     (action_space_high \<lparr>yc_reward_type = ''dense'', yc_distance_threshold = 5 / 100,
        rotation_ctrl_enabled = False, fingers_ctrl_enabled = False, sim_env = ()\<rparr>)
     = Inr [1, - 1, 1 / 2, 1] \<and>
   step_commands
       \<lparr>yc_reward_type = ''dense'', yc_distance_threshold = 5 / 100,
        rotation_ctrl_enabled = False, fingers_ctrl_enabled = False, sim_env = ()\<rparr>
       [0, 0, 1 / 2] [5, - 3, 1 / 2, 2] =
   step_commands
       \<lparr>yc_reward_type = ''dense'', yc_distance_threshold = 5 / 100,
        rotation_ctrl_enabled = False, fingers_ctrl_enabled = False, sim_env = ()\<rparr>
       [0, 0, 1 / 2] [1, - 1, 1 / 2, 1]"
proof -
  define y where "y = \<lparr>yc_reward_type = ''dense'', yc_distance_threshold = 5 / 100,
        rotation_ctrl_enabled = False, fingers_ctrl_enabled = False, sim_env = ()\<rparr>"
  have len: "length [5, - 3, 1 / 2, 2 :: real] = n_actions y"
    by (simp add: y_def n_actions_def)
  note inst = step_clips_action [of y "[0, 0, 1 / 2]" "[5, - 3, 1 / 2, 2]" "[1, - 1, 1 / 2, 1]"]
  have clip: "np_clip_array [5, - 3, 1 / 2, 2] (action_space_low y) (action_space_high y)
                = Inr [1, - 1, 1 / 2, 1]"
    using inst [THEN conjunct2, THEN conjunct2] len by (simp add: np_clip_def)
  have "step_commands y [0, 0, 1 / 2] [5, - 3, 1 / 2, 2] =
        step_commands y [0, 0, 1 / 2] [1, - 1, 1 / 2, 1]"
    using inst [THEN conjunct1] clip by simp
  then show ?thesis using clip unfolding y_def by simp
qed

lemma np_interp_linear:
  assumes "- 1 \<le> x" "x \<le> 1"
  shows "np_interp x (- 1, 1) (5 / 100, 30 / 100) = 5 / 100 + (x + 1) / 2 * (25 / 100)"
  using assms by (auto simp: np_interp_def)

lemma apply_tf_identity_rotation:
  "apply_tf [0, t, 0, 1, 0, 0, 0] [x, y, z, 1, 0, 0, 0] = Inr [x, y + t, z, 1, 0, 0, 0]"
  by (simp add: apply_tf_def quat_rot_vec4 quat_mul4 np_broadcast2_def)

lemma np_norm2_y: "np_norm [0, d] = \<bar>d\<bar>"
  by (simp add: np_norm_def)

lemma unpack_action_4:
  assumes "\<not> rotation_ctrl_enabled self" "length rest = (if fingers_ctrl_enabled self then 2 else 0)"
  shows "unpack_action self (a0 # a1 # a2 # a3 # rest) =
           Inr \<lparr>dist_between_grippers = a0, grasp_center_pos_delta = [a1, a2, a3],
                grasp_center_quat_delta = [1, 0, 0, 0],
                l_fingers_ctrl = (if fingers_ctrl_enabled self then rest ! 0 else - 1),
                r_fingers_ctrl = (if fingers_ctrl_enabled self then rest ! 1 else - 1)\<rparr>"
  using assms by (simp add: unpack_action_def)

lemma step_commands_from_moved:
  fixes d :: real
  assumes "\<not> rotation_ctrl_enabled self"
    and clip: "np_clip_array action (action_space_low self) (action_space_high self) = Inr clipped"
    and un: "unpack_action self clipped =
           Inr \<lparr>dist_between_grippers = a0, grasp_center_pos_delta = [a1, a2, a3],
                grasp_center_quat_delta = q, l_fingers_ctrl = l, r_fingers_ctrl = r\<rparr>"
    and mv: "np_broadcast2 (+) (take 3 center) (map (\<lambda>x. x * (2 / 10)) [a1, a2, a3]) = Inr [mx, my, mz]"
    and d: "np_interp a0 (- 1, 1) (5 / 100, 30 / 100) = d" "0 < d"
  shows "step_commands self center action =
           Inr \<lparr>left_target = [mx, my + d / 2, mz], left_yaw = 0,
                right_target = [mx, my - d / 2, mz], right_yaw = pi,
                left_grp_config = l, right_grp_config = r\<rparr>"
proof -
  have tf0: "apply_tf [0, d / 2, 0, 1, 0, 0, 0] [mx, my, mz, 1, 0, 0, 0] =
             Inr [mx, my + d / 2, mz, 1, 0, 0, 0]"
    by (rule apply_tf_identity_rotation)
  have tf1: "apply_tf [0, - d / 2, 0, 1, 0, 0, 0] [mx, my, mz, 1, 0, 0, 0] =
             Inr [mx, my - d / 2, mz, 1, 0, 0, 0]"
    using apply_tf_identity_rotation [of "- d / 2"] by simp
  have close: "np_allclose (\<bar>d\<bar> / 2) (d / 2)"
    using d(2) by (simp add: np_allclose_def)
  have yaw_r: "np_arctan2 d 0 + pi / 2 = pi" using d(2) by (simp add: np_arctan2_def)
  have yaw_l: "np_arctan2 (- d) 0 + pi / 2 = 0" using d(2) by (simp add: np_arctan2_def)
  have mv': "np_broadcast2 (+) (take 3 center)
               (map (\<lambda>x. x * (2 / 10))
                  (grasp_center_pos_delta
                     \<lparr>dist_between_grippers = a0, grasp_center_pos_delta = [a1, a2, a3],
                      grasp_center_quat_delta = q, l_fingers_ctrl = l, r_fingers_ctrl = r\<rparr>))
             = Inr [mx, my, mz]"
    using mv by simp
  show ?thesis
    unfolding step_commands_def clip un sum.case Let_def mv'
    using assms(1) tf0 tf1 close yaw_r yaw_l d
    by (simp add: np_broadcast2_def np_assign_slice3_def np_norm2_y)
qed

lemma np_broadcast2_length3:
  assumes "np_broadcast2 f a [x, y, z] = Inr m"
  shows "length m = 3"
  using assms by (auto simp: np_broadcast2_def split: if_splits)

lemma step_commands_rotation_raises:
  assumes "rotation_ctrl_enabled self"
  shows "isl (step_commands self center action)"
  using assms by (auto simp: step_commands_def Let_def split: sum.splits)

lemma step_commands_clip_fails:
  assumes "np_clip_array action (action_space_low self) (action_space_high self) = Inl e"
  shows "step_commands self center action = Inl e"
  using assms by (simp add: step_commands_def)

lemma step_commands_moved_fails:
  assumes clip: "np_clip_array action (action_space_low self) (action_space_high self) = Inr clipped"
    and un: "unpack_action self clipped = Inr u"
    and mv: "np_broadcast2 (+) (take 3 center) (map (\<lambda>x. x * (2 / 10)) (grasp_center_pos_delta u)) = Inl e"
  shows "step_commands self center action = Inl e"
  unfolding step_commands_def clip un sum.case Let_def mv by simp

lemma step_commands_after_unpack:
  fixes d :: real
  assumes "\<not> rotation_ctrl_enabled self"
    and clip: "np_clip_array action (action_space_low self) (action_space_high self) = Inr clipped"
    and un: "unpack_action self clipped =
           Inr \<lparr>dist_between_grippers = a0, grasp_center_pos_delta = [a1, a2, a3],
                grasp_center_quat_delta = q, l_fingers_ctrl = l, r_fingers_ctrl = r\<rparr>"
    and d: "np_interp a0 (- 1, 1) (5 / 100, 30 / 100) = d" "0 < d"
  shows "step_commands self [cx, cy, cz] action =
           Inr \<lparr>left_target = [cx + a1 * (2 / 10), cy + a2 * (2 / 10) + d / 2, cz + a3 * (2 / 10)],
                left_yaw = 0,
                right_target = [cx + a1 * (2 / 10), cy + a2 * (2 / 10) - d / 2, cz + a3 * (2 / 10)],
                right_yaw = pi,
                left_grp_config = l, right_grp_config = r\<rparr>"
proof -
  have mv: "np_broadcast2 (+) (take 3 [cx, cy, cz]) (map (\<lambda>x. x * (2 / 10)) [a1, a2, a3]) =
              Inr [cx + a1 * (2 / 10), cy + a2 * (2 / 10), cz + a3 * (2 / 10)]"
    by (simp add: np_broadcast2_def)
  show ?thesis
    by (rule step_commands_from_moved [OF assms(1) clip un mv d])
qed

lemma list_ge4: "4 \<le> length q \<Longrightarrow> \<exists>a b c d rest. q = a # b # c # d # rest"
  by (cases q; simp; rename_tac x xs; case_tac xs; simp; rename_tac y ys; case_tac ys; simp;
      rename_tac z zs; case_tac zs; simp)

lemma np_norm3_y: "np_norm [0, d, 0] = \<bar>d\<bar>"
  by (simp add: np_norm_def)

lemma step_commands_regular:
  "\<not> rotation_ctrl_enabled self \<and> length action = n_actions self \<and>
   length center = 3 \<longrightarrow>
     (\<exists>cmd d.
        d = 5 / 100 + (np_clip (action ! 0) (- 1) 1 + 1) / 2 * (25 / 100) \<and>
        5 / 100 \<le> d \<and> d \<le> 30 / 100 \<and>
        step_commands self center action = Inr cmd \<and>
        left_target cmd =
          [center ! 0 + np_clip (action ! 1) (- 1) 1 * (2 / 10),
           center ! 1 + np_clip (action ! 2) (- 1) 1 * (2 / 10) + d / 2,
           center ! 2 + np_clip (action ! 3) (- 1) 1 * (2 / 10)] \<and>
        right_target cmd =
          [center ! 0 + np_clip (action ! 1) (- 1) 1 * (2 / 10),
           center ! 1 + np_clip (action ! 2) (- 1) 1 * (2 / 10) - d / 2,
           center ! 2 + np_clip (action ! 3) (- 1) 1 * (2 / 10)] \<and>
        np_norm (map2 (-) (left_target cmd) (right_target cmd)) = d \<and>
        right_yaw cmd =
          np_arctan2 (left_target cmd ! 1 - right_target cmd ! 1)
            (left_target cmd ! 0 - right_target cmd ! 0) + pi / 2 \<and>
        left_yaw cmd =
          np_arctan2 (- (left_target cmd ! 1 - right_target cmd ! 1))
            (- (left_target cmd ! 0 - right_target cmd ! 0)) + pi / 2 \<and>
        right_yaw cmd = left_yaw cmd + pi)"
proof
  assume h: "\<not> rotation_ctrl_enabled self \<and> length action = n_actions self \<and>
   length center = 3"
  obtain cx cy cz where c: "center = [cx, cy, cz]"
    using list_len3 h by blast
  have "4 \<le> length action" using h n_actions_ge4 [of self] by simp
  then obtain a0 a1 a2 a3 rest where a: "action = a0 # a1 # a2 # a3 # rest"
    using list_ge4 by blast
  have lrest: "length rest = (if fingers_ctrl_enabled self then 2 else 0)"
    using h by (simp add: a n_actions_def)
  define cl where "cl = (\<lambda>x. np_clip x (- 1) 1)"
  define d where "d = 5 / 100 + (cl a0 + 1) / 2 * (25 / 100)"
  have b0: "- 1 \<le> cl a0" "cl a0 \<le> 1"
    using np_clip_bounds [of "- 1" 1 a0] by (simp_all add: cl_def)
  have dr: "5 / 100 \<le> d" "d \<le> 30 / 100" "0 < d"
    using b0 unfolding d_def by (simp_all add: field_simps)
  have clip: "np_clip_array action (action_space_low self) (action_space_high self) =
                Inr (cl a0 # cl a1 # cl a2 # cl a3 # map cl rest)"
    using h np_clip_array_same_length [of action "n_actions self" "- 1" 1]
    by (simp add: action_space_low_def action_space_high_def a cl_def)
  have un: "unpack_action self (cl a0 # cl a1 # cl a2 # cl a3 # map cl rest) =
           Inr \<lparr>dist_between_grippers = cl a0, grasp_center_pos_delta = [cl a1, cl a2, cl a3],
                grasp_center_quat_delta = [1, 0, 0, 0],
                l_fingers_ctrl = (if fingers_ctrl_enabled self then map cl rest ! 0 else - 1),
                r_fingers_ctrl = (if fingers_ctrl_enabled self then map cl rest ! 1 else - 1)\<rparr>"
    using h lrest by (intro unpack_action_4) simp_all
  have interp: "np_interp (cl a0) (- 1, 1) (5 / 100, 30 / 100) = d"
    using np_interp_linear [OF b0] by (simp add: d_def)
  define cmd where "cmd =
     \<lparr>left_target = [cx + cl a1 * (2 / 10), cy + cl a2 * (2 / 10) + d / 2, cz + cl a3 * (2 / 10)],
      left_yaw = 0,
      right_target = [cx + cl a1 * (2 / 10), cy + cl a2 * (2 / 10) - d / 2, cz + cl a3 * (2 / 10)],
      right_yaw = pi,
      left_grp_config = (if fingers_ctrl_enabled self then map cl rest ! 0 else - 1),
      right_grp_config = (if fingers_ctrl_enabled self then map cl rest ! 1 else - 1)\<rparr>"
  have run: "step_commands self center action = Inr cmd"
    unfolding c cmd_def
    using h by (intro step_commands_after_unpack [OF _ clip un interp dr(3)]) simp
  have lt: "left_target cmd =
          [center ! 0 + np_clip (action ! 1) (- 1) 1 * (2 / 10),
           center ! 1 + np_clip (action ! 2) (- 1) 1 * (2 / 10) + d / 2,
           center ! 2 + np_clip (action ! 3) (- 1) 1 * (2 / 10)]"
    and rt: "right_target cmd =
          [center ! 0 + np_clip (action ! 1) (- 1) 1 * (2 / 10),
           center ! 1 + np_clip (action ! 2) (- 1) 1 * (2 / 10) - d / 2,
           center ! 2 + np_clip (action ! 3) (- 1) 1 * (2 / 10)]"
    by (simp_all add: cmd_def a c cl_def)
  have nrm: "np_norm (map2 (-) (left_target cmd) (right_target cmd)) = d"
    using dr(3) by (simp add: cmd_def np_norm3_y)
  have ry: "right_yaw cmd =
          np_arctan2 (left_target cmd ! 1 - right_target cmd ! 1)
            (left_target cmd ! 0 - right_target cmd ! 0) + pi / 2"
    using dr(3) by (simp add: cmd_def np_arctan2_def)
  have ly: "left_yaw cmd =
          np_arctan2 (- (left_target cmd ! 1 - right_target cmd ! 1))
            (- (left_target cmd ! 0 - right_target cmd ! 0)) + pi / 2"
    using dr(3) by (simp add: cmd_def np_arctan2_def)
  have face: "right_yaw cmd = left_yaw cmd + pi"
    by (simp add: cmd_def)
  have dd: "d = 5 / 100 + (np_clip (action ! 0) (- 1) 1 + 1) / 2 * (25 / 100)"
    by (simp add: d_def cl_def a)
  show "\<exists>cmd d.
        d = 5 / 100 + (np_clip (action ! 0) (- 1) 1 + 1) / 2 * (25 / 100) \<and>
        5 / 100 \<le> d \<and> d \<le> 30 / 100 \<and>
        step_commands self center action = Inr cmd \<and>
        left_target cmd =
          [center ! 0 + np_clip (action ! 1) (- 1) 1 * (2 / 10),
           center ! 1 + np_clip (action ! 2) (- 1) 1 * (2 / 10) + d / 2,
           center ! 2 + np_clip (action ! 3) (- 1) 1 * (2 / 10)] \<and>
        right_target cmd =
          [center ! 0 + np_clip (action ! 1) (- 1) 1 * (2 / 10),
           center ! 1 + np_clip (action ! 2) (- 1) 1 * (2 / 10) - d / 2,
           center ! 2 + np_clip (action ! 3) (- 1) 1 * (2 / 10)] \<and>
        np_norm (map2 (-) (left_target cmd) (right_target cmd)) = d \<and>
        right_yaw cmd =
          np_arctan2 (left_target cmd ! 1 - right_target cmd ! 1)
            (left_target cmd ! 0 - right_target cmd ! 0) + pi / 2 \<and>
        left_yaw cmd =
          np_arctan2 (- (left_target cmd ! 1 - right_target cmd ! 1))
            (- (left_target cmd ! 0 - right_target cmd ! 0)) + pi / 2 \<and>
        right_yaw cmd = left_yaw cmd + pi"
    using dd dr(1,2) run lt rt nrm ry ly face by blast
qed


lemma step_commands_char:
  assumes run: "step_commands self center action = Inr cmd"
  shows "\<exists>clipped m d.
           np_clip_array action (action_space_low self) (action_space_high self) = Inr clipped \<and>
           length clipped = n_actions self \<and>
           np_broadcast2 (+) (take 3 center) (map (\<lambda>x. x * (2 / 10)) (take 3 (drop 1 clipped))) = Inr m \<and>
           length m = 3 \<and>
           d = 5 / 100 + (clipped ! 0 + 1) / 2 * (25 / 100) \<and> 5 / 100 \<le> d \<and> d \<le> 30 / 100 \<and>
           left_target cmd = [m ! 0, m ! 1 + d / 2, m ! 2] \<and>
           right_target cmd = [m ! 0, m ! 1 - d / 2, m ! 2] \<and>
           left_yaw cmd = 0 \<and> right_yaw cmd = pi"
proof -
  have nrot: "\<not> rotation_ctrl_enabled self"
    using step_commands_rotation_raises [of self center action] run by auto
  obtain clipped where clip:
    "np_clip_array action (action_space_low self) (action_space_high self) = Inr clipped"
    using step_commands_clip_fails [of action self _ center] run
    by (cases "np_clip_array action (action_space_low self) (action_space_high self)") auto
  have n1: "n_actions self \<noteq> 1" using n_actions_ge4 [of self] by simp
  have cb: "length clipped = n_actions self" "\<forall>x\<in>set clipped. - 1 \<le> x \<and> x \<le> 1"
    using np_clip_array_result [of action "n_actions self" clipped] clip n1
    by (simp_all add: action_space_low_def action_space_high_def)
  have "4 \<le> length clipped" using cb(1) n_actions_ge4 [of self] by simp
  then obtain a0 a1 a2 a3 rest where c: "clipped = a0 # a1 # a2 # a3 # rest"
    using list_ge4 by blast
  have lrest: "length rest = (if fingers_ctrl_enabled self then 2 else 0)"
    using cb(1) nrot by (simp add: c n_actions_def)
  define l where "l = (if fingers_ctrl_enabled self then rest ! 0 else - 1)"
  define r where "r = (if fingers_ctrl_enabled self then rest ! 1 else - 1)"
  have un: "unpack_action self clipped =
           Inr \<lparr>dist_between_grippers = a0, grasp_center_pos_delta = [a1, a2, a3],
                grasp_center_quat_delta = [1, 0, 0, 0], l_fingers_ctrl = l, r_fingers_ctrl = r\<rparr>"
    unfolding c l_def r_def using nrot lrest by (rule unpack_action_4)
  obtain m where mv: "np_broadcast2 (+) (take 3 center) (map (\<lambda>x. x * (2 / 10)) [a1, a2, a3]) = Inr m"
    using step_commands_moved_fails [OF clip un, of center] run
    by (cases "np_broadcast2 (+) (take 3 center) (map (\<lambda>x. x * (2 / 10)) [a1, a2, a3])") auto
  have "length m = 3" using np_broadcast2_length3 [of "(+)" "take 3 center"] mv by simp
  then obtain mx my mz where m: "m = [mx, my, mz]" using list_len3 by blast
  define d where "d = 5 / 100 + (a0 + 1) / 2 * (25 / 100)"
  have b0: "- 1 \<le> a0" "a0 \<le> 1" using cb(2) by (simp_all add: c)
  have dr: "5 / 100 \<le> d" "d \<le> 30 / 100" "0 < d"
    using b0 unfolding d_def by (simp_all add: field_simps)
  have interp: "np_interp a0 (- 1, 1) (5 / 100, 30 / 100) = d"
    using np_interp_linear [OF b0] by (simp add: d_def)
  have "step_commands self center action =
           Inr \<lparr>left_target = [mx, my + d / 2, mz], left_yaw = 0,
                right_target = [mx, my - d / 2, mz], right_yaw = pi,
                left_grp_config = l, right_grp_config = r\<rparr>"
    using step_commands_from_moved [OF nrot clip un mv [unfolded m] interp dr(3)] .
  then have cmd: "cmd = \<lparr>left_target = [mx, my + d / 2, mz], left_yaw = 0,
                right_target = [mx, my - d / 2, mz], right_yaw = pi,
                left_grp_config = l, right_grp_config = r\<rparr>"
    using run by simp
  have mv2: "np_broadcast2 (+) (take 3 center) (map (\<lambda>x. x * (2 / 10)) (take 3 (drop 1 clipped))) = Inr m"
    using mv by (simp add: c)
  have "d = 5 / 100 + (clipped ! 0 + 1) / 2 * (25 / 100)" by (simp add: d_def c)
  moreover have "left_target cmd = [m ! 0, m ! 1 + d / 2, m ! 2]"
    "right_target cmd = [m ! 0, m ! 1 - d / 2, m ! 2]" "left_yaw cmd = 0" "right_yaw cmd = pi"
    by (simp_all add: cmd m)
  ultimately show ?thesis using clip cb(1) mv2 \<open>length m = 3\<close> dr(1,2) by blast
qed

text \<open>
  C9. Whenever \<open>step\<close> reaches the call of \<open>_move_arms\<close>, the separation command it has
  decoded is the first component a of the clipped action, mapped linearly to
  d = 0.05 + (a + 1) / 2 * 0.25, between 0.05 and 0.30. The two gripper targets are the
  moved grasp center m plus and minus d / 2 along its lateral axis, their Euclidean
  distance is d, each yaw is computed from the vector between the two targets, and the
  two yaws differ by pi, so that the grippers face each other. With rotation control
  disabled, an action of the length of the action space and a grasp center of 3
  components, \<open>step\<close> does reach that call, with the moved center
  \<open>center + 0.2 * clip (action[1:4])\<close>.
\<close>

theorem grasp_center_derivation:
  "(step_commands self center action = Inr cmd \<longrightarrow>
      (\<exists>clipped m d.
         np_clip_array action (action_space_low self) (action_space_high self) = Inr clipped \<and>
         length clipped = n_actions self \<and>
         np_broadcast2 (+) (take 3 center)
           (map (\<lambda>x. x * (2 / 10)) (take 3 (drop 1 clipped))) = Inr m \<and>
         length m = 3 \<and>
         d = 5 / 100 + (clipped ! 0 + 1) / 2 * (25 / 100) \<and> 5 / 100 \<le> d \<and> d \<le> 30 / 100 \<and>
         left_target cmd = [m ! 0, m ! 1 + d / 2, m ! 2] \<and>
         right_target cmd = [m ! 0, m ! 1 - d / 2, m ! 2] \<and>
         np_norm (map2 (-) (left_target cmd) (right_target cmd)) = d \<and>
         right_yaw cmd =
           np_arctan2 (left_target cmd ! 1 - right_target cmd ! 1)
             (left_target cmd ! 0 - right_target cmd ! 0) + pi / 2 \<and>
         left_yaw cmd =
           np_arctan2 (- (left_target cmd ! 1 - right_target cmd ! 1))
             (- (left_target cmd ! 0 - right_target cmd ! 0)) + pi / 2 \<and>
         right_yaw cmd = left_yaw cmd + pi)) \<and>
   (\<not> rotation_ctrl_enabled self \<and> length action = n_actions self \<and> length center = 3 \<longrightarrow>
      (\<exists>cmd' d.
         d = 5 / 100 + (np_clip (action ! 0) (- 1) 1 + 1) / 2 * (25 / 100) \<and>
         step_commands self center action = Inr cmd' \<and>
         left_target cmd' =
           [center ! 0 + np_clip (action ! 1) (- 1) 1 * (2 / 10),
            center ! 1 + np_clip (action ! 2) (- 1) 1 * (2 / 10) + d / 2,
            center ! 2 + np_clip (action ! 3) (- 1) 1 * (2 / 10)] \<and>
         right_target cmd' =
           [center ! 0 + np_clip (action ! 1) (- 1) 1 * (2 / 10),
            center ! 1 + np_clip (action ! 2) (- 1) 1 * (2 / 10) - d / 2,
            center ! 2 + np_clip (action ! 3) (- 1) 1 * (2 / 10)]))"
proof (intro conjI impI)
  assume "step_commands self center action = Inr cmd"
  from step_commands_char [OF this]
  obtain clipped m d where
    clip: "np_clip_array action (action_space_low self) (action_space_high self) = Inr clipped"
    and len: "length clipped = n_actions self"
    and mv: "np_broadcast2 (+) (take 3 center)
           (map (\<lambda>x. x * (2 / 10)) (take 3 (drop 1 clipped))) = Inr m"
    and lm: "length m = 3"
    and d: "d = 5 / 100 + (clipped ! 0 + 1) / 2 * (25 / 100)" "5 / 100 \<le> d" "d \<le> 30 / 100"
    and lt: "left_target cmd = [m ! 0, m ! 1 + d / 2, m ! 2]"
    and rt: "right_target cmd = [m ! 0, m ! 1 - d / 2, m ! 2]"
    and yaws: "left_yaw cmd = 0" "right_yaw cmd = pi"
    by blast
  have pos: "0 < d" using d(2) by simp
  have nrm: "np_norm (map2 (-) (left_target cmd) (right_target cmd)) = d"
    using pos by (simp add: lt rt np_norm3_y)
  have ry: "right_yaw cmd =
           np_arctan2 (left_target cmd ! 1 - right_target cmd ! 1)
             (left_target cmd ! 0 - right_target cmd ! 0) + pi / 2"
    using pos by (simp add: lt rt yaws np_arctan2_def)
  have ly: "left_yaw cmd =
           np_arctan2 (- (left_target cmd ! 1 - right_target cmd ! 1))
             (- (left_target cmd ! 0 - right_target cmd ! 0)) + pi / 2"
    using pos by (simp add: lt rt yaws np_arctan2_def)
  have face: "right_yaw cmd = left_yaw cmd + pi" by (simp add: yaws)
  show "\<exists>clipped m d.
         np_clip_array action (action_space_low self) (action_space_high self) = Inr clipped \<and>
         length clipped = n_actions self \<and>
         np_broadcast2 (+) (take 3 center)
           (map (\<lambda>x. x * (2 / 10)) (take 3 (drop 1 clipped))) = Inr m \<and>
         length m = 3 \<and>
         d = 5 / 100 + (clipped ! 0 + 1) / 2 * (25 / 100) \<and> 5 / 100 \<le> d \<and> d \<le> 30 / 100 \<and>
         left_target cmd = [m ! 0, m ! 1 + d / 2, m ! 2] \<and>
         right_target cmd = [m ! 0, m ! 1 - d / 2, m ! 2] \<and>
         np_norm (map2 (-) (left_target cmd) (right_target cmd)) = d \<and>
         right_yaw cmd =
           np_arctan2 (left_target cmd ! 1 - right_target cmd ! 1)
             (left_target cmd ! 0 - right_target cmd ! 0) + pi / 2 \<and>
         left_yaw cmd =
           np_arctan2 (- (left_target cmd ! 1 - right_target cmd ! 1))
             (- (left_target cmd ! 0 - right_target cmd ! 0)) + pi / 2 \<and>
         right_yaw cmd = left_yaw cmd + pi"
    using clip len mv lm d lt rt nrm ry ly face by blast
next
  assume "\<not> rotation_ctrl_enabled self \<and> length action = n_actions self \<and> length center = 3"
  then show "\<exists>cmd' d.
         d = 5 / 100 + (np_clip (action ! 0) (- 1) 1 + 1) / 2 * (25 / 100) \<and>
         step_commands self center action = Inr cmd' \<and>
         left_target cmd' =
           [center ! 0 + np_clip (action ! 1) (- 1) 1 * (2 / 10),
            center ! 1 + np_clip (action ! 2) (- 1) 1 * (2 / 10) + d / 2,
            center ! 2 + np_clip (action ! 3) (- 1) 1 * (2 / 10)] \<and>
         right_target cmd' =
           [center ! 0 + np_clip (action ! 1) (- 1) 1 * (2 / 10),
            center ! 1 + np_clip (action ! 2) (- 1) 1 * (2 / 10) - d / 2,
            center ! 2 + np_clip (action ! 3) (- 1) 1 * (2 / 10)]"
    using step_commands_regular [of self action center] by blast
qed

text \<open>The action (3, 1/2, 0, -2) at the grasp center (0, 0, 1/2): the separation is
  0.30, and the targets lie 0.15 to either side of the moved center (0.1, 0, 0.3).\<close>

theorem grasp_center_derivation_witness:
  "\<exists>cmd.
     step_commands
       \<lparr>yc_reward_type = ''dense'', yc_distance_threshold = 5 / 100,
        rotation_ctrl_enabled = False, fingers_ctrl_enabled = False, sim_env = ()\<rparr>
       [0, 0, 1 / 2] [3, 1 / 2, 0, - 2] = Inr cmd \<and>
     left_target cmd = [1 / 10, 15 / 100, 3 / 10] \<and>
     right_target cmd = [1 / 10, - (15 / 100), 3 / 10] \<and>
     np_norm (map2 (-) (left_target cmd) (right_target cmd)) = 30 / 100 \<and>
     right_yaw cmd = left_yaw cmd + pi"
proof -
  define y where "y = \<lparr>yc_reward_type = ''dense'', yc_distance_threshold = 5 / 100,
        rotation_ctrl_enabled = False, fingers_ctrl_enabled = False, sim_env = ()\<rparr>"
  have hyp: "\<not> rotation_ctrl_enabled y \<and> length [3, 1 / 2, 0, - 2 :: real] = n_actions y \<and>
             length [0, 0, 1 / 2 :: real] = 3"
    by (simp add: y_def n_actions_def)
  have cl: "np_clip 3 (- 1) 1 = 1" "np_clip (1 / 2) (- 1) 1 = 1 / 2" "np_clip 0 (- 1) 1 = 0"
    "np_clip (- 2) (- 1) 1 = - 1"
    by (simp_all add: np_clip_def)
  from grasp_center_derivation [of y "[0, 0, 1 / 2]" "[3, 1 / 2, 0, - 2]", THEN conjunct2,
         rule_format, OF hyp]
  obtain cmd dd where
    dd: "dd = 5 / 100 + (np_clip ([3, 1 / 2, 0, - 2] ! 0) (- 1) 1 + 1) / 2 * (25 / 100)"
    and run: "step_commands y [0, 0, 1 / 2] [3, 1 / 2, 0, - 2] = Inr cmd"
    and lt: "left_target cmd =
          [([0, 0, 1 / 2] ! 0) + np_clip ([3, 1 / 2, 0, - 2] ! 1) (- 1) 1 * (2 / 10),
           [0, 0, 1 / 2] ! 1 + np_clip ([3, 1 / 2, 0, - 2] ! 2) (- 1) 1 * (2 / 10) + dd / 2,
           [0, 0, 1 / 2] ! 2 + np_clip ([3, 1 / 2, 0, - 2] ! 3) (- 1) 1 * (2 / 10)]"
    and rt: "right_target cmd =
          [([0, 0, 1 / 2] ! 0) + np_clip ([3, 1 / 2, 0, - 2] ! 1) (- 1) 1 * (2 / 10),
           [0, 0, 1 / 2] ! 1 + np_clip ([3, 1 / 2, 0, - 2] ! 2) (- 1) 1 * (2 / 10) - dd / 2,
           [0, 0, 1 / 2] ! 2 + np_clip ([3, 1 / 2, 0, - 2] ! 3) (- 1) 1 * (2 / 10)]"
    by blast
  have dv: "dd = 30 / 100" using dd by (simp add: cl)
  have lt': "left_target cmd = [1 / 10, 15 / 100, 3 / 10]"
    unfolding lt dv by (simp add: cl)
  have rt': "right_target cmd = [1 / 10, - (15 / 100), 3 / 10]"
    unfolding rt dv by (simp add: cl)
  from grasp_center_derivation [of y "[0, 0, 1 / 2]" "[3, 1 / 2, 0, - 2]" cmd, THEN conjunct1,
         rule_format, OF run]
  obtain m d' where
    lt2: "left_target cmd = [m ! 0, m ! 1 + d' / 2, m ! 2]"
    and rt2: "right_target cmd = [m ! 0, m ! 1 - d' / 2, m ! 2]"
    and nrm: "np_norm (map2 (-) (left_target cmd) (right_target cmd)) = d'"
    and face: "right_yaw cmd = left_yaw cmd + pi"
    by blast
  have "m ! 1 + d' / 2 = 15 / 100" "m ! 1 - d' / 2 = - (15 / 100)"
    using lt2 rt2 lt' rt' by simp_all
  then have "d' = 30 / 100" by simp
  then show ?thesis
    using run lt' rt' nrm face unfolding y_def by blast
qed

end
